theory Spec2Isabelle
  imports Complex_Main "HOL-Library.Word"
begin

section \<open>The restoration pipeline of app/main.py\<close>

text \<open>
  The pipeline of \<^verbatim>\<open>app/main.py\<close> chains three remote calls (vision analysis, plan
  generation, image edit) and stores a result record.  Everything the Python code reads
  from outside itself is a field of the record \<open>env\<close>: the process environment, the
  remote services, and the library functions whose code is not part of the repository
  (\<^verbatim>\<open>hash\<close>, \<^verbatim>\<open>uuid.uuid4\<close>, \<^verbatim>\<open>float\<close>, \<^verbatim>\<open>base64.b64decode\<close>,
  \<^verbatim>\<open>json.loads\<close>, \<^verbatim>\<open>time.strftime\<close>).  Everything it mutates is a field of the
  record \<open>world\<close>: the two module-level dictionaries, the requests sent to the two chat
  services, the requests sent to the edit service and the delays slept, in the order in
  which they happened, and the number of identifiers drawn.  Each function takes the world and
  returns its result together with the new world; a raised exception is the result
  \<open>Inl e\<close>.  Calls of \<^verbatim>\<open>print\<close> are not modelled.  A Python \<^verbatim>\<open>str\<close> is a
  \<open>string\<close>, with a character outside ASCII written as its UTF-8 bytes.
\<close>

subsection \<open>Python values\<close>

datatype exc_class =
  AttributeError | KeyError | TypeError | IndexError | ValueError | PlainException

text \<open>An exception: its class and the text \<^verbatim>\<open>str(e)\<close>.\<close>

datatype exn = Exn exc_class string

fun str_exn :: "exn \<Rightarrow> string" where
  "str_exn (Exn c m) = m"

text \<open>Sequencing of steps that may raise: the first exception ends the sequence.\<close>

fun bind_exn :: "exn + 'a \<Rightarrow> ('a \<Rightarrow> exn + 'b) \<Rightarrow> exn + 'b" where
  "bind_exn (Inl e) f = Inl e"
| "bind_exn (Inr x) f = f x"

text \<open>
  What \<^verbatim>\<open>json.loads\<close> and \<^verbatim>\<open>Response.json\<close> return.  A JSON object is a
  Python dict; it is kept as an association list read with \<open>map_of\<close>.
\<close>

datatype json =
  JNull | JBool bool | JNum real | JStr string | JArr "json list" | JObj "(string \<times> json) list"

text \<open>Truth value of a Python value, as \<^verbatim>\<open>if v:\<close> tests it.\<close>

fun truthy :: "json \<Rightarrow> bool" where
  "truthy JNull = False"
| "truthy (JBool b) = b"
| "truthy (JNum x) = (x \<noteq> 0)"
| "truthy (JStr s) = (s \<noteq> [])"
| "truthy (JArr xs) = (xs \<noteq> [])"
| "truthy (JObj kvs) = (kvs \<noteq> [])"

fun type_name :: "json \<Rightarrow> string" where
  "type_name JNull = ''NoneType''"
| "type_name (JBool b) = ''bool''"
| "type_name (JNum x) = ''float''"
| "type_name (JStr s) = ''str''"
| "type_name (JArr xs) = ''list''"
| "type_name (JObj kvs) = ''dict''"

text \<open>The text of a value between single quotes, as the messages of Python's errors show it.\<close>

definition quoted :: "string \<Rightarrow> string" where
  "quoted s = [CHR 0x27] @ s @ [CHR 0x27]"

definition no_attribute_get :: "string \<Rightarrow> exn" where
  "no_attribute_get tn =
     Exn AttributeError (quoted tn @ '' object has no attribute '' @ quoted ''get'')"

text \<open>\<^verbatim>\<open>v.get(key)\<close>: the value, \<^verbatim>\<open>None\<close> when the key is absent; only a dict has \<^verbatim>\<open>get\<close>.\<close>

fun json_get :: "json \<Rightarrow> string \<Rightarrow> exn + json" where
  "json_get (JObj kvs) k = (case map_of kvs k of None \<Rightarrow> Inr JNull | Some v \<Rightarrow> Inr v)"
| "json_get v k = Inl (no_attribute_get (type_name v))"

text \<open>\<^verbatim>\<open>v.get(key, {})\<close>.\<close>

fun json_get_default_dict :: "json \<Rightarrow> string \<Rightarrow> exn + json" where
  "json_get_default_dict (JObj kvs) k = (case map_of kvs k of None \<Rightarrow> Inr (JObj []) | Some v \<Rightarrow> Inr v)"
| "json_get_default_dict v k = Inl (no_attribute_get (type_name v))"

text \<open>\<^verbatim>\<open>v[0]\<close>: the first element of a list, the first character of a string.\<close>

fun json_index0 :: "json \<Rightarrow> exn + json" where
  "json_index0 (JArr (x # xs)) = Inr x"
| "json_index0 (JArr []) = Inl (Exn IndexError ''list index out of range'')"
| "json_index0 (JStr (c # cs)) = Inr (JStr [c])"
| "json_index0 (JStr []) = Inl (Exn IndexError ''string index out of range'')"
| "json_index0 (JObj kvs) = Inl (Exn KeyError ''0'')"
| "json_index0 v = Inl (Exn TypeError (quoted (type_name v) @ '' object is not subscriptable''))"

text \<open>\<^verbatim>\<open>v[key]\<close> for a string key.\<close>

fun json_item :: "json \<Rightarrow> string \<Rightarrow> exn + json" where
  "json_item (JObj kvs) k =
     (case map_of kvs k of None \<Rightarrow> Inl (Exn KeyError (quoted k)) | Some v \<Rightarrow> Inr v)"
| "json_item (JArr xs) k = Inl (Exn TypeError ''list indices must be integers or slices, not str'')"
| "json_item (JStr s) k = Inl (Exn TypeError ''string indices must be integers'')"
| "json_item v k = Inl (Exn TypeError (quoted (type_name v) @ '' object is not subscriptable''))"

subsection \<open>Requests, environment and world\<close>

text \<open>One part of the content of a chat message.\<close>

datatype content = Text string | ImageUrl string

text \<open>
  A call of \<^verbatim>\<open>ChatCompletionsClient(...).complete(...)\<close>: the constructor's arguments,
  the content of the single user message, and the token limit.  The temperature is the
  constant 0.7 in both calls.
\<close>

record chat_request =
  chat_endpoint :: string
  chat_credential :: string
  chat_deployment :: string
  chat_content :: "content list"
  chat_max_tokens :: nat

text \<open>The arguments of \<^verbatim>\<open>requests.post\<close> in \<^verbatim>\<open>_post_once\<close>.\<close>

record edit_request =
  post_url :: string
  header_api_key :: string
  file_image :: "string \<times> string \<times> string"
  data_prompt :: string
  data_model :: string
  data_size :: string
  data_quality :: string
  data_n :: nat
  post_timeout :: nat

text \<open>
  What \<^verbatim>\<open>requests.post\<close> does: it raises (the text of the exception is kept), or it
  returns a response with a status code, a body text, and the outcome of \<^verbatim>\<open>resp.json()\<close>
  (\<open>Inl e\<close> when that call raises \<open>e\<close>).
\<close>

datatype http_outcome =
  RequestRaises string
| Response (status_code: int) (resp_text: string) (resp_json: "exn + json")

text \<open>A value of the options dictionary.\<close>

datatype optval = ONone | OBool bool | OStr string

fun opt_truthy :: "optval \<Rightarrow> bool" where
  "opt_truthy ONone = False"
| "opt_truthy (OBool b) = b"
| "opt_truthy (OStr s) = (s \<noteq> [])"

text \<open>How an f-string formats the value.\<close>

fun opt_format :: "optval \<Rightarrow> string" where
  "opt_format ONone = ''None''"
| "opt_format (OBool b) = (if b then ''True'' else ''False'')"
| "opt_format (OStr s) = s"

text \<open>
  The \<^verbatim>\<open>options\<close> argument.  The endpoint passes whatever the request's JSON holds
  under \<^verbatim>\<open>"options"\<close>, so the argument may be a value that is no dict (\<open>NotADict\<close> with
  the name of its type).
\<close>

datatype py_options = NotADict string | Dict "string \<rightharpoonup> optval"

text \<open>
  The value under \<^verbatim>\<open>"location"\<close> and the stored record.  The field \<open>r_k\<close> is the
  value under the key \<^verbatim>\<open>"k"\<close> of the Python dictionary.
\<close>

record location =
  loc_lat :: "real option"
  loc_lon :: "real option"

record result_data =
  r_id :: string
  r_prompt :: string
  r_original_image :: string
  r_restored_image :: json
  r_options :: py_options
  r_azure_analysis :: string
  r_restoration_description :: string
  r_restoration_success :: bool
  r_address :: string
  r_location :: location
  r_created_at :: string

text \<open>
  What \<^verbatim>\<open>restore_building_image\<close> returns: the stored record, or a dictionary with
  the keys \<^verbatim>\<open>"error"\<close>, \<^verbatim>\<open>"help"\<close> and, in one of its two forms, \<^verbatim>\<open>"id"\<close>.
\<close>

datatype outcome =
  Result result_data
| ErrorDescriptor (err_error: string) (err_help: string) (err_id: "string option")

text \<open>
  The environment.  A remote service answers its \<open>n\<close>-th request (counted from 0) with
  \<open>service n request\<close>.  For the two chat calls the answer \<open>Inr s\<close> is the text
  \<^verbatim>\<open>response.choices[0].message.content\<close>, taken to be a \<^verbatim>\<open>str\<close> as the
  annotations of the two functions say; \<open>Inl e\<close> means that the client's constructor,
  \<^verbatim>\<open>complete\<close> or the access to the content raised \<open>e\<close>.  The oracle
  \<open>float_of_str\<close> is \<^verbatim>\<open>float\<close> on a string (\<open>None\<close> when it raises
  \<^verbatim>\<open>ValueError\<close>), \<open>json_loads\<close> is \<^verbatim>\<open>json.loads\<close> (\<open>None\<close> when it raises), and
  \<open>strftime n\<close> is the formatted local time when the record of the \<open>n\<close>-th run is
  assembled.
\<close>

record env =
  environ :: "string \<rightharpoonup> string"
  hash_str :: "string \<Rightarrow> int"
  uuid4 :: "nat \<Rightarrow> 128 word"
  strftime :: "nat \<Rightarrow> string"
  float_of_str :: "string \<Rightarrow> real option"
  b64decode :: "string \<Rightarrow> exn + string"
  json_loads :: "string \<Rightarrow> json option"
  vision_complete :: "nat \<Rightarrow> chat_request \<Rightarrow> exn + string"
  plan_complete :: "nat \<Rightarrow> chat_request \<Rightarrow> exn + string"
  requests_post :: "nat \<Rightarrow> edit_request \<Rightarrow> http_outcome"

text \<open>
  What \<^verbatim>\<open>create_restoration_mockup\<close> does to the outside: a call of
  \<^verbatim>\<open>requests.post\<close> with its arguments, or a call of \<^verbatim>\<open>time.sleep\<close> with the number
  of seconds.
\<close>

datatype edit_event = Posted edit_request | Slept nat

record world =
  analysis_cache :: "int \<rightharpoonup> string"
  restoration_results :: "string \<rightharpoonup> result_data"
  vision_requests :: "chat_request list"
  plan_requests :: "chat_request list"
  edit_trace :: "edit_event list"
  uuids_drawn :: nat

text \<open>The edit requests of a trace, in the order in which they were sent.\<close>

fun posted :: "edit_event list \<Rightarrow> edit_request list" where
  "posted [] = []"
| "posted (Posted request # events) = request # posted events"
| "posted (Slept seconds # events) = posted events"

definition edit_requests :: "world \<Rightarrow> edit_request list" where
  "edit_requests w = posted (edit_trace w)"

text \<open>\<^verbatim>\<open>os.environ.get(key, default)\<close>.\<close>

definition environ_get :: "env \<Rightarrow> string \<Rightarrow> string \<Rightarrow> string" where
  "environ_get env k d = (case environ env k of None \<Rightarrow> d | Some v \<Rightarrow> v)"

text \<open>
  The test \<^verbatim>\<open>if not azure_api_key or not azure_endpoint\<close>, which all four functions
  make on the same two variables: \<open>None\<close> when the test succeeds (a variable is unset or
  empty), otherwise the key and the endpoint.
\<close>

definition azure_credentials :: "env \<Rightarrow> (string \<times> string) option" where
  "azure_credentials env =
     (case (environ env ''AZURE_OPENAI_API_KEY'', environ env ''AZURE_OPENAI_ENDPOINT'') of
        (Some azure_api_key, Some azure_endpoint) \<Rightarrow>
          if azure_api_key = [] \<or> azure_endpoint = [] then None
          else Some (azure_api_key, azure_endpoint)
      | _ \<Rightarrow> None)"

subsection \<open>analyze_building_with_azure\<close>

definition analysis_instruction :: string where
  "analysis_instruction =
     ''Analyze this building image and describe its architectural style, condition, key features, and suggest specific restoration considerations. Focus on structural elements, materials, and historical significance if any. Keep response under 200 words.''"

definition analysis_fallback :: string where
  "analysis_fallback = ''Modern building with standard architectural features requiring restoration.''"

text \<open>The client and the message of the vision call.\<close>

definition vision_request :: "env \<Rightarrow> string \<Rightarrow> string \<Rightarrow> string \<Rightarrow> chat_request" where
  "vision_request env azure_endpoint azure_api_key image_data =
     \<lparr>chat_endpoint = azure_endpoint, chat_credential = azure_api_key,
      chat_deployment = environ_get env ''AZURE_OPENAI_DEPLOYMENT_NAME'' ''gpt-4.1'',
      chat_content = [Text analysis_instruction, ImageUrl (''data:image/jpeg;base64,'' @ image_data)],
      chat_max_tokens = 500\<rparr>"

text \<open>The body of the \<^verbatim>\<open>try\<close> block.\<close>

definition analyze_try :: "env \<Rightarrow> world \<Rightarrow> string \<Rightarrow> (exn + string) \<times> world" where
  "analyze_try env w image_data =
     (let image_hash = hash_str env (take 100 image_data) in
      case analysis_cache w image_hash of
        Some cached \<Rightarrow> (Inr cached, w)
      | None \<Rightarrow>
         (case azure_credentials env of
            None \<Rightarrow> (Inr analysis_fallback, w)
          | Some (azure_api_key, azure_endpoint) \<Rightarrow>
             (let request = vision_request env azure_endpoint azure_api_key image_data;
                  w1 = w\<lparr>vision_requests := vision_requests w @ [request]\<rparr>
              in case vision_complete env (length (vision_requests w)) request of
                   Inl e \<Rightarrow> (Inl e, w1)
                 | Inr analysis \<Rightarrow>
                     (Inr analysis,
                      w1\<lparr>analysis_cache := (analysis_cache w1)(image_hash \<mapsto> analysis)\<rparr>))))"

text \<open>The function: the \<^verbatim>\<open>try\<close> block under \<^verbatim>\<open>except Exception\<close>.\<close>

definition analyze_building_with_azure :: "env \<Rightarrow> world \<Rightarrow> string \<Rightarrow> (exn + string) \<times> world" where
  "analyze_building_with_azure env w image_data =
     (case analyze_try env w image_data of
        (Inl e, w1) \<Rightarrow> (Inr analysis_fallback, w1)
      | (Inr analysis, w1) \<Rightarrow> (Inr analysis, w1))"

subsection \<open>generate_restoration_description_with_azure\<close>

definition restoration_prompt :: "string \<Rightarrow> string \<Rightarrow> string" where
  "restoration_prompt building_analysis prompt =
     ''\<newline>'' @
     ''        Based on this building analysis: '' @ building_analysis @ ''\<newline>'' @
     ''\<newline>'' @
     ''        And this restoration request: '' @ prompt @ ''\<newline>'' @
     ''\<newline>'' @
     ''        Create a detailed, professional restoration plan that includes:\<newline>'' @
     ''        1. Specific architectural improvements\<newline>'' @
     ''        2. Materials and techniques to be used\<newline>'' @
     ''        3. Timeline considerations\<newline>'' @
     ''        4. Heritage preservation aspects\<newline>'' @
     ''        5. Modern upgrades and sustainability features\<newline>'' @
     ''\<newline>'' @
     ''        Write this as a comprehensive restoration proposal that could be presented to stakeholders.\<newline>'' @
     ''        ''"

text \<open>The client and the message of the plan call.\<close>

definition plan_request :: "env \<Rightarrow> string \<Rightarrow> string \<Rightarrow> string \<Rightarrow> string \<Rightarrow> chat_request" where
  "plan_request env azure_endpoint azure_api_key prompt building_analysis =
     \<lparr>chat_endpoint = azure_endpoint, chat_credential = azure_api_key,
      chat_deployment = environ_get env ''AZURE_OPENAI_DEPLOYMENT_NAME'' ''gpt-4.1'',
      chat_content = [Text (restoration_prompt building_analysis prompt)],
      chat_max_tokens = 1500\<rparr>"

text \<open>
  The \<^verbatim>\<open>except\<close> clause raises the exception again, so the function is its
  \<^verbatim>\<open>try\<close> block.
\<close>

definition generate_restoration_description_with_azure ::
  "env \<Rightarrow> world \<Rightarrow> string \<Rightarrow> string \<Rightarrow> (exn + string) \<times> world" where
  "generate_restoration_description_with_azure env w prompt building_analysis =
     (case azure_credentials env of
        None \<Rightarrow> (Inl (Exn PlainException ''Azure credentials not available''), w)
      | Some (azure_api_key, azure_endpoint) \<Rightarrow>
         (let request = plan_request env azure_endpoint azure_api_key prompt building_analysis
          in (plan_complete env (length (plan_requests w)) request,
              w\<lparr>plan_requests := plan_requests w @ [request]\<rparr>)))"

subsection \<open>create_restoration_mockup\<close>

definition edit_prompt :: "string \<Rightarrow> string" where
  "edit_prompt description =
     ''Transform this derelict building into a beautifully restored version\<newline>'' @
     ''while maintaining EXACTLY the same camera angle, perspective, and viewpoint.\<newline>'' @
     ''\<newline>'' @
     ''CRITICAL REQUIREMENTS:\<newline>'' @
     ''- Keep the EXACT same perspective, camera angle, and viewpoint\<newline>'' @
     ''- Maintain the same architectural proportions and scale\<newline>'' @
     ''- Preserve the building'' @ [CHR 0x27] @ ''s structural footprint and shape\<newline>'' @
     ''- Create photorealistic results that look like professional architectural photography\<newline>'' @
     ''\<newline>'' @
     ''RESTORATION IMPROVEMENTS:\<newline>'' @
     ''- Clean and repair all damaged materials\<newline>'' @
     ''- Replace broken or boarded windows with new glass\<newline>'' @
     ''- Fresh paint or protective coatings to fa'' @ [CHR 0xC3, CHR 0xA7] @ ''ades\<newline>'' @
     ''- Repair and modernize any visible roof elements\<newline>'' @
     ''- Clean surroundings and add tasteful landscaping\<newline>'' @
     ''- Subtle modern lighting fixtures highlighting architecture\<newline>'' @
     ''\<newline>'' @
     ''STYLE SPECIFICATIONS: '' @ description @ ''\<newline>'' @
     ''\<newline>'' @
     ''OUTPUT REQUIREMENTS:\<newline>'' @
     ''- Professional architectural photography quality\<newline>'' @
     ''- Sharp, high-definition details\<newline>'' @
     ''- Natural lighting matching the original photo\<newline>'' @
     ''- Realistic materials and textures\<newline>'' @
     ''- Finished appearance suitable for a design portfolio\<newline>''"

text \<open>Sections 1 and 2 of the function: the URL, the prompt and the payload.\<close>

definition edit_request_of :: "env \<Rightarrow> string \<Rightarrow> string \<Rightarrow> string \<Rightarrow> string \<Rightarrow> edit_request" where
  "edit_request_of env endpoint api_key description image_bytes =
     (let deployment = environ_get env ''AZURE_OPENAI_DEPLOYMENT_NAME'' ''gpt-image-1'';
          api_ver = environ_get env ''AZURE_OPENAI_API_VERSION'' ''2025-04-01-preview'';
          endpoint1 = (if endpoint \<noteq> [] \<and> last endpoint = CHR ''/'' then endpoint else endpoint @ ''/'');
          url = endpoint1 @ ''openai/deployments/'' @ deployment @ ''/images/edits?api-version='' @ api_ver
      in \<lparr>post_url = url, header_api_key = api_key,
          file_image = (''building.png'', image_bytes, ''image/png''),
          data_prompt = edit_prompt description, data_model = deployment,
          data_size = ''auto'', data_quality = ''medium'', data_n = 1, post_timeout = 90\<rparr>)"

text \<open>
  What \<^verbatim>\<open>_post_once\<close> does with the payload of a response with status 200.
\<close>

definition payload_result :: "json \<Rightarrow> exn + (bool \<times> json)" where
  "payload_result payload =
     bind_exn (json_get payload ''data'') (\<lambda>d.
       if truthy d then
         bind_exn (json_item payload ''data'') (\<lambda>data.
         bind_exn (json_index0 data) (\<lambda>first.
         bind_exn (json_item first ''b64_json'') (\<lambda>b64. Inr (True, b64))))
       else Inr (False, JStr ''no_data_key''))"

text \<open>
  \<^verbatim>\<open>_post_once\<close>: only the call of \<^verbatim>\<open>requests.post\<close> is inside its \<^verbatim>\<open>try\<close>.
\<close>

definition post_once :: "env \<Rightarrow> world \<Rightarrow> edit_request \<Rightarrow> (exn + (bool \<times> json)) \<times> world" where
  "post_once env w request =
     (let w1 = w\<lparr>edit_trace := edit_trace w @ [Posted request]\<rparr> in
      case requests_post env (length (edit_requests w)) request of
        RequestRaises e \<Rightarrow> (Inr (False, JStr (''request_error: '' @ e)), w1)
      | Response status text js \<Rightarrow>
          if status = 200 then
            (case js of
               Inl e \<Rightarrow> (Inl e, w1)
             | Inr payload \<Rightarrow> (payload_result payload, w1))
          else (Inr (False, JStr text), w1))"

text \<open>
  Section 5, the value of \<^verbatim>\<open>err_code\<close>: \<^verbatim>\<open>None\<close> unless
  \<^verbatim>\<open>json.loads(result).get("error", {}).get("code")\<close> returns a value.
\<close>

definition err_code_of :: "env \<Rightarrow> json \<Rightarrow> json" where
  "err_code_of env result =
     (case result of
        JStr s \<Rightarrow>
          (case json_loads env s of
             None \<Rightarrow> JNull
           | Some v \<Rightarrow>
               (case bind_exn (json_get_default_dict v ''error'') (\<lambda>err. json_get err ''code'') of
                  Inl e \<Rightarrow> JNull
                | Inr code \<Rightarrow> code))
      | _ \<Rightarrow> JNull)"

definition create_restoration_mockup ::
  "env \<Rightarrow> world \<Rightarrow> string \<Rightarrow> string \<Rightarrow> (exn + json) \<times> world" where
  "create_restoration_mockup env w original_image_data description =
     (case azure_credentials env of
        None \<Rightarrow> (Inr (JStr original_image_data), w)
      | Some (api_key, endpoint) \<Rightarrow>
         (case b64decode env original_image_data of
            Inl e \<Rightarrow> (Inl e, w)
          | Inr image_bytes \<Rightarrow>
             (let request = edit_request_of env endpoint api_key description image_bytes in
              case post_once env w request of
                (Inl e, w1) \<Rightarrow> (Inl e, w1)
              | (Inr (success, result), w1) \<Rightarrow>
                 (case (if \<not> success \<and> err_code_of env result = JStr ''moderation_blocked''
                        then post_once env (w1\<lparr>edit_trace := edit_trace w1 @ [Slept 2]\<rparr>) request
                        else (Inr (success, result), w1)) of
                    (Inl e, w2) \<Rightarrow> (Inl e, w2)
                  | (Inr (success2, result2), w2) \<Rightarrow>
                      if success2 \<and> truthy result2 then (Inr result2, w2)
                      else (Inr (JStr original_image_data), w2)))))"

subsection \<open>restore_building_image\<close>

definition RESTORATION_STYLES :: "string list" where
  "RESTORATION_STYLES =
     [''Modern renovation'', ''Historical restoration'', ''Eco-friendly renovation'',
      ''Luxury upgrade'', ''Commercial conversion'', ''Residential conversion'',
      ''Mixed-use development'', ''Minimalist restoration'']"

text \<open>\<^verbatim>\<open>RESTORATION_PROMPT.format(style_instruction=..., additional_instructions=...)\<close>.\<close>

definition RESTORATION_PROMPT :: "string \<Rightarrow> string \<Rightarrow> string" where
  "RESTORATION_PROMPT style_instruction additional_instructions =
     ''\<newline>Create a realistic visualization of a derelict building after professional restoration and renovation.\<newline>'' @
     style_instruction @ ''\<newline>'' @
     additional_instructions @ ''\<newline>'' @
     ''Maintain the same architectural footprint and core structure, but repair all damage.\<newline>'' @
     ''Fix broken windows, repair the facade, update the exterior, and modernize the appearance while respecting the building'' @ [CHR 0x27] @ ''s original character.\<newline>'' @
     ''Make the surrounding area clean and well-maintained.\<newline>'' @
     ''The result should look like a professional architectural visualization of the restored building.\<newline>''"

text \<open>\<^verbatim>\<open>sep.join(xs)\<close>.\<close>

fun join :: "string \<Rightarrow> string list \<Rightarrow> string" where
  "join sep [] = []"
| "join sep [x] = x"
| "join sep (x # y # ys) = x @ sep @ join sep (y # ys)"

text \<open>\<^verbatim>\<open>options.get(key, default)\<close> on a dict.\<close>

definition dict_get :: "(string \<rightharpoonup> optval) \<Rightarrow> string \<Rightarrow> optval \<Rightarrow> optval" where
  "dict_get d k dflt = (case d k of None \<Rightarrow> dflt | Some v \<Rightarrow> v)"

text \<open>Truth value of an optional string: \<^verbatim>\<open>None\<close> and the empty string are false.\<close>

fun str_truthy :: "string option \<Rightarrow> bool" where
  "str_truthy None = False"
| "str_truthy (Some s) = (s \<noteq> [])"

text \<open>
  \<^verbatim>\<open>uuid.uuid4().hex\<close>: the 128 bits of the identifier as 32 hexadecimal digits, the
  most significant first.
\<close>

definition hex_digit :: "nat \<Rightarrow> char" where
  "hex_digit n = ''0123456789abcdef'' ! (n mod 16)"

definition uuid_hex :: "128 word \<Rightarrow> string" where
  "uuid_hex u = map (\<lambda>i. hex_digit (unat (drop_bit (4 * (31 - i)) u))) [0..<32]"

text \<open>The four optional sentences of the prompt, in the order of the source.\<close>

definition additional_instructions_of :: "(string \<rightharpoonup> optval) \<Rightarrow> string \<Rightarrow> string list" where
  "additional_instructions_of d building_analysis =
     [''Building analysis: '' @ building_analysis] @
     (if opt_truthy (dict_get d ''preserve_heritage'' (OBool False))
      then [''Preserve historical and heritage elements of the building.''] else []) @
     (if opt_truthy (dict_get d ''landscaping'' (OBool False))
      then [''Add attractive landscaping and greenery around the building.''] else []) @
     (if opt_truthy (dict_get d ''lighting'' (OBool False))
      then [''Add modern and attractive lighting to highlight architectural features.''] else []) @
     (if opt_truthy (dict_get d ''expand_building'' (OBool False))
      then [''Consider a tasteful expansion or addition that complements the original structure.''] else [])"

text \<open>The text that replaces the plan when its generation raises.\<close>

definition templated_plan :: "optval \<Rightarrow> string" where
  "templated_plan selected_style =
     ''Restoration plan for '' @ opt_format selected_style @ '' style renovation based on the analysis.''"

text \<open>
  The conversion of \<^verbatim>\<open>lat\<close> and \<^verbatim>\<open>lon\<close>: both assignments are inside one
  \<^verbatim>\<open>try\<close>, whose handler resets both variables.
\<close>

definition convert_location :: "env \<Rightarrow> string option \<Rightarrow> string option \<Rightarrow> location" where
  "convert_location env lat lon =
     (if str_truthy lat \<and> str_truthy lon then
        (case (lat, lon) of
           (Some lat_s, Some lon_s) \<Rightarrow>
             (case float_of_str env lat_s of
                None \<Rightarrow> \<lparr>loc_lat = None, loc_lon = None\<rparr>
              | Some latitude \<Rightarrow>
                 (case float_of_str env lon_s of
                    None \<Rightarrow> \<lparr>loc_lat = None, loc_lon = None\<rparr>
                  | Some longitude \<Rightarrow> \<lparr>loc_lat = Some latitude, loc_lon = Some longitude\<rparr>))
         | _ \<Rightarrow> \<lparr>loc_lat = None, loc_lon = None\<rparr>)
      else \<lparr>loc_lat = None, loc_lon = None\<rparr>)"

text \<open>
  The inner \<^verbatim>\<open>try\<close> around the plan generation: the description and the new world.
\<close>

definition plan_stage ::
  "env \<Rightarrow> world \<Rightarrow> string \<Rightarrow> string \<Rightarrow> optval \<Rightarrow> string \<times> world" where
  "plan_stage env w prompt building_analysis selected_style =
     (case generate_restoration_description_with_azure env w prompt building_analysis of
        (Inl e, w2) \<Rightarrow> (templated_plan selected_style, w2)
      | (Inr description, w2) \<Rightarrow> (description, w2))"

text \<open>
  The inner \<^verbatim>\<open>try\<close> around the image edit: the values of \<^verbatim>\<open>restored_img_data\<close>
  and \<^verbatim>\<open>restoration_success\<close>, and the new world.
\<close>

definition edit_stage ::
  "env \<Rightarrow> world \<Rightarrow> string \<Rightarrow> string \<Rightarrow> json \<times> bool \<times> world" where
  "edit_stage env w image_data restoration_description =
     (case create_restoration_mockup env w image_data restoration_description of
        (Inl e, w3) \<Rightarrow> (JStr image_data, False, w3)
      | (Inr restored_img_data, w3) \<Rightarrow>
          (restored_img_data, restored_img_data \<noteq> JStr image_data, w3))"

text \<open>
  The outer \<^verbatim>\<open>try\<close> block.  The first call of \<^verbatim>\<open>options.get\<close> is where an
  argument that is no dict raises; the later calls are on the same value.
\<close>

definition restore_try ::
  "env \<Rightarrow> world \<Rightarrow> string \<Rightarrow> string \<Rightarrow> py_options \<Rightarrow> string option \<Rightarrow> string option \<Rightarrow>
   string option \<Rightarrow> (exn + result_data) \<times> world" where
  "restore_try env w result_id image_data options address lat lon =
     (case analyze_building_with_azure env w image_data of
        (Inl e, w1) \<Rightarrow> (Inl e, w1)
      | (Inr building_analysis, w1) \<Rightarrow>
         (case options of
            NotADict tn \<Rightarrow> (Inl (no_attribute_get tn), w1)
          | Dict d \<Rightarrow>
             (let selected_style = dict_get d ''style'' (OStr ''Modern renovation'');
                  style_instruction = ''Use a '' @ opt_format selected_style @ '' style for the restoration.'';
                  additional_instructions_text = join '' '' (additional_instructions_of d building_analysis);
                  prompt = RESTORATION_PROMPT style_instruction additional_instructions_text;
                  (restoration_description, w2) =
                     plan_stage env w1 prompt building_analysis selected_style;
                  (restored_img_data, restoration_success, w3) =
                     edit_stage env w2 image_data restoration_description;
                  result_data =
                    \<lparr>r_id = result_id, r_prompt = prompt, r_original_image = image_data,
                     r_restored_image = restored_img_data, r_options = options,
                     r_azure_analysis = building_analysis,
                     r_restoration_description = restoration_description,
                     r_restoration_success = restoration_success,
                     r_address = (case address of None \<Rightarrow> [] | Some a \<Rightarrow> a),
                     r_location = convert_location env lat lon,
                     r_created_at = strftime env (uuids_drawn w3)\<rparr>
              in (Inr result_data,
                  w3\<lparr>restoration_results := (restoration_results w3)(result_id \<mapsto> result_data)\<rparr>))))"

definition credentials_error :: outcome where
  "credentials_error =
     ErrorDescriptor ''Azure credentials not found in environment variables.''
       ''Please set AZURE_OPENAI_API_KEY, AZURE_OPENAI_ENDPOINT, and optionally AZURE_OPENAI_DEPLOYMENT_NAME environment variables.''
       None"

definition pipeline_error :: "exn \<Rightarrow> string \<Rightarrow> outcome" where
  "pipeline_error e result_id =
     ErrorDescriptor (''Restoration planning failed: '' @ str_exn e)
       ''Please check your Azure AI credentials and GPT-4.1 deployment''
       (Some result_id)"

definition restore_building_image ::
  "env \<Rightarrow> world \<Rightarrow> string \<Rightarrow> py_options \<Rightarrow> string option \<Rightarrow> string option \<Rightarrow> string option \<Rightarrow>
   (exn + outcome) \<times> world" where
  "restore_building_image env w image_data options address lat lon =
     (case azure_credentials env of
        None \<Rightarrow> (Inr credentials_error, w)
      | Some credentials \<Rightarrow>
         (let result_id = uuid_hex (uuid4 env (uuids_drawn w));
              w0 = w\<lparr>uuids_drawn := Suc (uuids_drawn w)\<rparr>
          in case restore_try env w0 result_id image_data options address lat lon of
               (Inl e, w1) \<Rightarrow> (Inr (pipeline_error e result_id), w1)
             | (Inr result_data, w1) \<Rightarrow> (Inr (Result result_data), w1)))"

subsection \<open>Predicates used in the statements\<close>

text \<open>
  The first attempt of \<^verbatim>\<open>create_restoration_mockup\<close> failed and the code read from
  its result is exactly \<^verbatim>\<open>"moderation_blocked"\<close>: the condition of section 5 of the
  function.
\<close>

definition first_attempt_blocked :: "env \<Rightarrow> world \<Rightarrow> edit_request \<Rightarrow> bool" where
  "first_attempt_blocked env w request =
     (case fst (post_once env w request) of
        Inl e \<Rightarrow> False
      | Inr (success, result) \<Rightarrow> \<not> success \<and> err_code_of env result = JStr ''moderation_blocked'')"

text \<open>
  The failures of one edit request that the specification lists: the request raised,
  the status is not 200, or the payload of a response with status 200 is a dict whose
  \<^verbatim>\<open>"data"\<close> is absent or false.
\<close>

definition failed_response :: "http_outcome \<Rightarrow> bool" where
  "failed_response out =
     (case out of
        RequestRaises e \<Rightarrow> True
      | Response status text js \<Rightarrow>
          status \<noteq> 200 \<or>
          (case js of
             Inr (JObj kvs) \<Rightarrow> (case map_of kvs ''data'' of None \<Rightarrow> True | Some d \<Rightarrow> \<not> truthy d)
           | _ \<Rightarrow> False))"

subsection \<open>Sample environments\<close>

text \<open>The world when the module has been loaded: both dictionaries are empty.\<close>

definition initial_world :: world where
  "initial_world =
     \<lparr>analysis_cache = Map.empty, restoration_results = Map.empty, vision_requests = [],
      plan_requests = [], edit_trace = [], uuids_drawn = 0\<rparr>"

definition credentials_set :: "string \<rightharpoonup> string" where
  "credentials_set =
     map_of [(''AZURE_OPENAI_API_KEY'', ''secret''),
             (''AZURE_OPENAI_ENDPOINT'', ''https://example.openai.azure.com'')]"

text \<open>A text between double quotes, as JSON writes a string.\<close>

definition dq :: "string \<Rightarrow> string" where
  "dq s = [CHR 0x22] @ s @ [CHR 0x22]"

text \<open>
  The bodies of the responses in the examples, each with the value that
  \<^verbatim>\<open>json.loads\<close> and \<^verbatim>\<open>resp.json()\<close> return for it.  The first reports a moderation
  block: \<^verbatim>\<open>{"error": {"code": "moderation_blocked"}}\<close>.
\<close>

definition moderation_body :: string where
  "moderation_body =
     ''{'' @ dq ''error'' @ '': {'' @ dq ''code'' @ '': '' @ dq ''moderation_blocked'' @ ''}}''"

definition moderation_payload :: json where
  "moderation_payload = JObj [(''error'', JObj [(''code'', JStr ''moderation_blocked'')])]"

text \<open>\<^verbatim>\<open>{"data": [{"b64_json": "bmV3"}]}\<close>: an edited image.\<close>

definition restored_body :: string where
  "restored_body = ''{'' @ dq ''data'' @ '': [{'' @ dq ''b64_json'' @ '': '' @ dq ''bmV3'' @ ''}]}''"

definition restored_payload :: json where
  "restored_payload = JObj [(''data'', JArr [JObj [(''b64_json'', JStr ''bmV3'')]])]"

text \<open>\<^verbatim>\<open>{"data": [{"b64_json": "aGk="}]}\<close>: the image that was sent.\<close>

definition echo_body :: string where
  "echo_body = ''{'' @ dq ''data'' @ '': [{'' @ dq ''b64_json'' @ '': '' @ dq ''aGk='' @ ''}]}''"

definition echo_payload :: json where
  "echo_payload = JObj [(''data'', JArr [JObj [(''b64_json'', JStr ''aGk='')]])]"

text \<open>
  \<^verbatim>\<open>{"data": [{"url": "https://example.com/restored.png"}]}\<close>: the image is given by
  a URL, not by \<^verbatim>\<open>b64_json\<close>.
\<close>

definition url_body :: string where
  "url_body =
     ''{'' @ dq ''data'' @ '': [{'' @ dq ''url'' @ '': '' @ dq ''https://example.com/restored.png'' @ ''}]}''"

definition url_payload :: json where
  "url_payload = JObj [(''data'', JArr [JObj [(''url'', JStr ''https://example.com/restored.png'')]])]"

text \<open>
  \<^verbatim>\<open>json.loads\<close> on the texts of the examples: the four bodies parse, and no other
  text of the examples is JSON.
\<close>

definition sample_json_loads :: "string \<Rightarrow> json option" where
  "sample_json_loads s =
     (if s = moderation_body then Some moderation_payload
      else if s = restored_body then Some restored_payload
      else if s = echo_body then Some echo_payload
      else if s = url_body then Some url_payload
      else None)"

text \<open>
  An environment with given variables and services.  Its library functions are defined
  on the few arguments the examples use.
\<close>

definition sample_env ::
  "(string \<rightharpoonup> string) \<Rightarrow> (nat \<Rightarrow> chat_request \<Rightarrow> exn + string) \<Rightarrow>
   (nat \<Rightarrow> chat_request \<Rightarrow> exn + string) \<Rightarrow> (nat \<Rightarrow> edit_request \<Rightarrow> http_outcome) \<Rightarrow> env" where
  "sample_env vars vision plan post =
     \<lparr>environ = vars,
      hash_str = (\<lambda>s. int (length s)),
      uuid4 = (\<lambda>n. word_of_nat n),
      strftime = (\<lambda>n. ''2025-06-01 12:00:00''),
      float_of_str = (\<lambda>s. if s = ''40.7'' then Some (407 / 10)
                          else if s = ''-74.0'' then Some (- 74) else None),
      b64decode = (\<lambda>s. if s = ''aGk='' then Inr ''hi''
                       else Inl (Exn ValueError ''Incorrect padding'')),
      json_loads = sample_json_loads,
      vision_complete = vision, plan_complete = plan, requests_post = post\<rparr>"

definition service_down :: "nat \<Rightarrow> 'q \<Rightarrow> exn + string" where
  "service_down n request = Inl (Exn PlainException ''connection refused'')"

definition service_answers :: "string \<Rightarrow> nat \<Rightarrow> 'q \<Rightarrow> exn + string" where
  "service_answers s n request = Inr s"

text \<open>A vision service that fails on its first request and answers from then on.\<close>

definition vision_recovers :: "nat \<Rightarrow> chat_request \<Rightarrow> exn + string" where
  "vision_recovers n request =
     (if n = 0 then Inl (Exn PlainException ''connection refused'') else Inr ''A brick warehouse.'')"

text \<open>Edit services: the answer to the \<open>n\<close>-th request.\<close>

definition edit_restores :: "nat \<Rightarrow> edit_request \<Rightarrow> http_outcome" where
  "edit_restores n request = Response 200 restored_body (Inr restored_payload)"

definition edit_unavailable :: "nat \<Rightarrow> edit_request \<Rightarrow> http_outcome" where
  "edit_unavailable n request =
     Response 503 ''Service Unavailable'' (Inl (Exn ValueError ''Expecting value''))"

text \<open>The first request is blocked by the moderation, with status 400; the later ones succeed.\<close>

definition edit_blocked_then_restores :: "nat \<Rightarrow> edit_request \<Rightarrow> http_outcome" where
  "edit_blocked_then_restores n request =
     (if n = 0 then Response 400 moderation_body (Inr moderation_payload)
      else Response 200 restored_body (Inr restored_payload))"

text \<open>A response with status 200 whose image is given by a URL, not by \<^verbatim>\<open>b64_json\<close>.\<close>

definition edit_returns_url :: "nat \<Rightarrow> edit_request \<Rightarrow> http_outcome" where
  "edit_returns_url n request = Response 200 url_body (Inr url_payload)"

text \<open>A response with status 200 that returns the image it was sent.\<close>

definition edit_echoes :: "nat \<Rightarrow> edit_request \<Rightarrow> http_outcome" where
  "edit_echoes n request = Response 200 echo_body (Inr echo_payload)"

section \<open>Properties\<close>

subsection \<open>The sample environments\<close>

lemma sample_env_sel [simp]:
  "environ (sample_env vars v p q) = vars"
  "hash_str (sample_env vars v p q) s = int (length s)"
  "uuid4 (sample_env vars v p q) n = word_of_nat n"
  "vision_complete (sample_env vars v p q) = v"
  "plan_complete (sample_env vars v p q) = p"
  "requests_post (sample_env vars v p q) = q"
  "b64decode (sample_env vars v p q) s =
     (if s = ''aGk='' then Inr ''hi'' else Inl (Exn ValueError ''Incorrect padding''))"
  "json_loads (sample_env vars v p q) = sample_json_loads"
  "float_of_str (sample_env vars v p q) s =
     (if s = ''40.7'' then Some (407 / 10) else if s = ''-74.0'' then Some (- 74) else None)"
  by (simp_all add: sample_env_def)

lemma sample_credentials:
  "azure_credentials (sample_env credentials_set v p q) =
     Some (''secret'', ''https://example.openai.azure.com'')"
  by (simp add: azure_credentials_def credentials_set_def)

lemma sample_no_credentials:
  "azure_credentials (sample_env Map.empty v p q) = None"
  by (simp add: azure_credentials_def)

subsection \<open>The analyzer\<close>

lemma analyze_eq:
  "analyze_building_with_azure env w image_data =
     (case fst (analyze_try env w image_data) of
        Inl e \<Rightarrow> Inr analysis_fallback | Inr a \<Rightarrow> Inr a, snd (analyze_try env w image_data))"
  by (simp add: analyze_building_with_azure_def split: prod.splits sum.splits)

lemma analyze_no_raise:
  "\<exists>analysis. fst (analyze_building_with_azure env w image_data) = Inr analysis"
  by (simp add: analyze_eq split: sum.splits)

text \<open>The analyzer changes nothing but its cache and the list of its own requests.\<close>

lemma analyze_world:
  "\<exists>c q. snd (analyze_building_with_azure env w image_data) =
     w\<lparr>analysis_cache := c, vision_requests := q\<rparr>"
proof -
  have "\<exists>c q. snd (analyze_try env w image_data) = w\<lparr>analysis_cache := c, vision_requests := q\<rparr>"
  proof (cases "analysis_cache w (hash_str env (take 100 image_data))")
    case (Some a)
    then have "snd (analyze_try env w image_data) =
        w\<lparr>analysis_cache := analysis_cache w, vision_requests := vision_requests w\<rparr>"
      by (simp add: analyze_try_def)
    then show ?thesis by blast
  next
    case None
    show ?thesis
    proof (cases "azure_credentials env")
      case no: None
      with None have "snd (analyze_try env w image_data) =
          w\<lparr>analysis_cache := analysis_cache w, vision_requests := vision_requests w\<rparr>"
        by (simp add: analyze_try_def)
      then show ?thesis by blast
    next
      case (Some c)
      obtain k ep where c: "c = (k, ep)" by (cases c)
      let ?q = "vision_requests w @ [vision_request env ep k image_data]"
      show ?thesis
      proof (cases "vision_complete env (length (vision_requests w)) (vision_request env ep k image_data)")
        case (Inl e)
        with None Some c have "snd (analyze_try env w image_data) =
            w\<lparr>analysis_cache := analysis_cache w, vision_requests := ?q\<rparr>"
          by (simp add: analyze_try_def Let_def)
        then show ?thesis by blast
      next
        case (Inr a)
        with None Some c have "snd (analyze_try env w image_data) =
            w\<lparr>analysis_cache := (analysis_cache w)(hash_str env (take 100 image_data) \<mapsto> a),
              vision_requests := ?q\<rparr>"
          by (simp add: analyze_try_def Let_def)
        then show ?thesis by blast
      qed
    qed
  qed
  then show ?thesis by (simp add: analyze_eq)
qed

lemma analyze_hit:
  "analysis_cache w (hash_str env (take 100 image_data)) = Some a \<Longrightarrow>
   analyze_building_with_azure env w image_data = (Inr a, w)"
  by (simp add: analyze_building_with_azure_def analyze_try_def)

lemma analyze_no_credentials:
  "analysis_cache w (hash_str env (take 100 image_data)) = None \<Longrightarrow>
   azure_credentials env = None \<Longrightarrow>
   analyze_building_with_azure env w image_data = (Inr analysis_fallback, w)"
  by (simp add: analyze_building_with_azure_def analyze_try_def)

lemma analyze_remote_raises:
  "analysis_cache w (hash_str env (take 100 image_data)) = None \<Longrightarrow>
   azure_credentials env = Some (k, ep) \<Longrightarrow>
   vision_complete env (length (vision_requests w)) (vision_request env ep k image_data) = Inl e \<Longrightarrow>
   analyze_building_with_azure env w image_data =
     (Inr analysis_fallback,
      w\<lparr>vision_requests := vision_requests w @ [vision_request env ep k image_data]\<rparr>)"
  by (simp add: analyze_building_with_azure_def analyze_try_def Let_def)

lemma analyze_remote_returns:
  "analysis_cache w (hash_str env (take 100 image_data)) = None \<Longrightarrow>
   azure_credentials env = Some (k, ep) \<Longrightarrow>
   vision_complete env (length (vision_requests w)) (vision_request env ep k image_data) = Inr a \<Longrightarrow>
   analyze_building_with_azure env w image_data =
     (Inr a,
      w\<lparr>vision_requests := vision_requests w @ [vision_request env ep k image_data],
        analysis_cache := (analysis_cache w)(hash_str env (take 100 image_data) \<mapsto> a)\<rparr>)"
  by (simp add: analyze_building_with_azure_def analyze_try_def Let_def)

text \<open>
  Claim C8, as amended.  The analyzer never raises: it always returns a text.  When the
  image is not in the cache and the credentials are missing, or the remote call raises
  (a network error, or a response from which the content cannot be read), the text is
  the fallback description, and the cache is left as it was.  The fallback description
  of the code is "Modern building with standard architectural features requiring
  restoration."
\<close>

theorem analyze_never_raises_and_falls_back:
  "(\<exists>analysis. fst (analyze_building_with_azure env w image_data) = Inr analysis) \<and>
   (analysis_cache w (hash_str env (take 100 image_data)) = None \<and> azure_credentials env = None \<longrightarrow>
      analyze_building_with_azure env w image_data = (Inr analysis_fallback, w)) \<and>
   (analysis_cache w (hash_str env (take 100 image_data)) = None \<and>
    azure_credentials env = Some (azure_api_key, azure_endpoint) \<and>
    vision_complete env (length (vision_requests w))
      (vision_request env azure_endpoint azure_api_key image_data) = Inl e \<longrightarrow>
      fst (analyze_building_with_azure env w image_data) = Inr analysis_fallback \<and>
      analysis_cache (snd (analyze_building_with_azure env w image_data)) = analysis_cache w) \<and>
   analysis_fallback = ''Modern building with standard architectural features requiring restoration.''"
  using analyze_no_raise [of env w image_data]
  by (auto simp: analyze_no_credentials analyze_remote_raises analysis_fallback_def)

theorem analyze_never_raises_and_falls_back_witness:
  "analyze_building_with_azure
     (sample_env Map.empty service_down service_down (\<lambda>n q. RequestRaises ''timeout''))
     initial_world ''aGk='' = (Inr analysis_fallback, initial_world) \<and>
   fst (analyze_building_with_azure
     (sample_env credentials_set service_down service_down (\<lambda>n q. RequestRaises ''timeout''))
     initial_world ''aGk='') = Inr analysis_fallback \<and>
   analysis_cache (snd (analyze_building_with_azure
     (sample_env credentials_set service_down service_down (\<lambda>n q. RequestRaises ''timeout''))
     initial_world ''aGk='')) = analysis_cache initial_world"
proof -
  let ?off = "sample_env Map.empty service_down service_down (\<lambda>n q. RequestRaises ''timeout'')"
  let ?on = "sample_env credentials_set service_down service_down (\<lambda>n q. RequestRaises ''timeout'')"
  have miss: "analysis_cache initial_world (hash_str env (take 100 ''aGk='')) = None" for env
    by (simp add: initial_world_def)
  have down: "vision_complete ?on (length (vision_requests initial_world))
      (vision_request ?on ''https://example.openai.azure.com'' ''secret'' ''aGk='')
      = Inl (Exn PlainException ''connection refused'')"
    by (simp add: service_down_def)
  show ?thesis
    using analyze_never_raises_and_falls_back
        [of ?off initial_world "''aGk=''" "''secret''" "''https://example.openai.azure.com''"
          "Exn PlainException ''connection refused''"]
      analyze_never_raises_and_falls_back
        [of ?on initial_world "''aGk=''" "''secret''" "''https://example.openai.azure.com''"
          "Exn PlainException ''connection refused''"]
      miss [of ?off] miss [of ?on] down sample_credentials [of service_down service_down "\<lambda>n q. RequestRaises ''timeout''"]
      sample_no_credentials [of service_down service_down "\<lambda>n q. RequestRaises ''timeout''"]
    by simp
qed

text \<open>
  Claim C8, as stated, fails: without credentials the analyzer returns a text that is
  not "generic building requiring restoration".
\<close>

theorem analyze_fallback_text_counterexample:
  "fst (analyze_building_with_azure
          (sample_env Map.empty service_down service_down (\<lambda>n q. RequestRaises ''timeout''))
          initial_world ''aGk='')
   \<noteq> Inr ''generic building requiring restoration''"
  by (simp add: analyze_no_credentials sample_no_credentials initial_world_def analysis_fallback_def)

text \<open>
  Claim C7, as amended.  Take two calls of the analyzer, one after the other, on images
  with the same first 100 characters.  The first call issues at most one remote request.
  Its key is in the cache afterwards exactly when it was there before or the remote
  call of the first call returned an analysis; in that case the second call returns the
  result of the first and leaves the world as it is, so it issues no remote request.
  The first call changes the cache only by storing, under a key that was absent, the
  analysis that its remote call returned.
\<close>

theorem analyze_second_call_cached:
  assumes "take 100 image1 = take 100 image2"
  shows "let image_hash = hash_str env (take 100 image1);
             request = (\<lambda>(k, ep). vision_request env ep k image1);
             answer = (\<lambda>c. vision_complete env (length (vision_requests w)) (request c));
             first = analyze_building_with_azure env w image1;
             w1 = snd first;
             second = analyze_building_with_azure env w1 image2
         in (analysis_cache w1 image_hash \<noteq> None \<longrightarrow> second = (fst first, w1)) \<and>
            (analysis_cache w1 image_hash \<noteq> None \<longleftrightarrow>
               analysis_cache w image_hash \<noteq> None \<or>
               (\<exists>c a. azure_credentials env = Some c \<and> answer c = Inr a)) \<and>
            (analysis_cache w1 \<noteq> analysis_cache w \<longrightarrow>
               (\<exists>c a. azure_credentials env = Some c \<and> answer c = Inr a \<and>
                  analysis_cache w image_hash = None \<and> fst first = Inr a \<and>
                  analysis_cache w1 = (analysis_cache w)(image_hash \<mapsto> a))) \<and>
            length (vision_requests w1) \<le> length (vision_requests w) + 1"
proof (cases "analysis_cache w (hash_str env (take 100 image1))")
  case (Some a)
  then have first: "analyze_building_with_azure env w image1 = (Inr a, w)"
    by (rule analyze_hit)
  from Some assms have "analyze_building_with_azure env w image2 = (Inr a, w)"
    by (simp add: analyze_hit)
  with first Some show ?thesis by (simp add: Let_def)
next
  case None
  show ?thesis
  proof (cases "azure_credentials env")
    case no: None
    with None have "analyze_building_with_azure env w image1 = (Inr analysis_fallback, w)"
      by (simp add: analyze_no_credentials)
    with None no show ?thesis by (simp add: Let_def)
  next
    case (Some c)
    obtain k ep where c: "c = (k, ep)" by (cases c)
    show ?thesis
    proof (cases "vision_complete env (length (vision_requests w)) (vision_request env ep k image1)")
      case (Inl e)
      with None Some c have "analyze_building_with_azure env w image1 =
          (Inr analysis_fallback, w\<lparr>vision_requests := vision_requests w @ [vision_request env ep k image1]\<rparr>)"
        by (simp add: analyze_remote_raises)
      with None Some c Inl show ?thesis by (simp add: Let_def)
    next
      case (Inr a)
      let ?w1 = "w\<lparr>vision_requests := vision_requests w @ [vision_request env ep k image1],
          analysis_cache := (analysis_cache w)(hash_str env (take 100 image1) \<mapsto> a)\<rparr>"
      from None Some c Inr have first: "analyze_building_with_azure env w image1 = (Inr a, ?w1)"
        by (simp add: analyze_remote_returns)
      have "analysis_cache ?w1 (hash_str env (take 100 image2)) = Some a"
        using assms by simp
      then have "analyze_building_with_azure env ?w1 image2 = (Inr a, ?w1)"
        by (rule analyze_hit)
      with first None Some c Inr show ?thesis by (simp add: Let_def)
    qed
  qed
qed

theorem analyze_second_call_cached_witness:
  "take 100 ''aGk='' = take 100 ''aGk='' \<and>
   analysis_cache
     (snd (analyze_building_with_azure
        (sample_env credentials_set (service_answers ''A brick warehouse.'') service_down
           (\<lambda>n q. RequestRaises ''timeout''))
        initial_world ''aGk='')) 4 \<noteq> None \<and>
   analyze_building_with_azure
     (sample_env credentials_set (service_answers ''A brick warehouse.'') service_down
        (\<lambda>n q. RequestRaises ''timeout''))
     (snd (analyze_building_with_azure
        (sample_env credentials_set (service_answers ''A brick warehouse.'') service_down
           (\<lambda>n q. RequestRaises ''timeout''))
        initial_world ''aGk=''))
     ''aGk='' =
   (Inr ''A brick warehouse.'',
    snd (analyze_building_with_azure
        (sample_env credentials_set (service_answers ''A brick warehouse.'') service_down
           (\<lambda>n q. RequestRaises ''timeout''))
        initial_world ''aGk=''))"
proof -
  let ?env = "sample_env credentials_set (service_answers ''A brick warehouse.'') service_down
           (\<lambda>n q. RequestRaises ''timeout'')"
  have first: "analyze_building_with_azure ?env initial_world ''aGk='' =
      (Inr ''A brick warehouse.'',
       initial_world\<lparr>vision_requests := vision_requests initial_world @
           [vision_request ?env ''https://example.openai.azure.com'' ''secret'' ''aGk=''],
         analysis_cache := (analysis_cache initial_world)(hash_str ?env (take 100 ''aGk='') \<mapsto> ''A brick warehouse.'')\<rparr>)"
    by (rule analyze_remote_returns)
      (simp_all add: initial_world_def sample_credentials service_answers_def)
  have same: "take 100 ''aGk='' = take 100 ''aGk=''" by simp
  show ?thesis
    using analyze_second_call_cached [OF same, of ?env initial_world] first
    by (simp add: Let_def)
qed

text \<open>
  Claim C7, as stated, fails: when the remote call of the first call raises, the second
  call on the same image issues a second remote request.
\<close>

theorem analyze_twice_counterexample:
  "length (vision_requests (snd (analyze_building_with_azure
       (sample_env credentials_set vision_recovers service_down (\<lambda>n q. RequestRaises ''timeout''))
       (snd (analyze_building_with_azure
          (sample_env credentials_set vision_recovers service_down (\<lambda>n q. RequestRaises ''timeout''))
          initial_world ''aGk=''))
       ''aGk=''))) = 2"
  by (simp add: analyze_building_with_azure_def analyze_try_def Let_def sample_credentials
      initial_world_def vision_recovers_def)

subsection \<open>The image edit\<close>

lemma posted_append: "posted (xs @ ys) = posted xs @ posted ys"
  by (induction xs rule: posted.induct) simp_all

lemma edit_requests_trace [simp]:
  "edit_requests (w\<lparr>edit_trace := events\<rparr>) = posted events"
  by (simp add: edit_requests_def)

lemma post_once_world:
  "snd (post_once env w request) = w\<lparr>edit_trace := edit_trace w @ [Posted request]\<rparr>"
  by (simp add: post_once_def Let_def split: http_outcome.splits sum.splits)

lemma post_once_failed:
  "failed_response (requests_post env (length (edit_requests w)) request) \<Longrightarrow>
   \<exists>result. fst (post_once env w request) = Inr (False, result)"
  by (auto simp: post_once_def failed_response_def payload_result_def Let_def
      split: http_outcome.splits sum.splits json.splits option.splits)

lemma mockup_no_credentials:
  "azure_credentials env = None \<Longrightarrow>
   create_restoration_mockup env w original_image_data description =
     (Inr (JStr original_image_data), w)"
  by (simp add: create_restoration_mockup_def)

lemma mockup_decode_raises:
  "azure_credentials env = Some (api_key, endpoint) \<Longrightarrow>
   b64decode env original_image_data = Inl e \<Longrightarrow>
   create_restoration_mockup env w original_image_data description = (Inl e, w)"
  by (simp add: create_restoration_mockup_def)

text \<open>
  The world after the call, when the credentials are set and the image decodes: the
  request is sent, and when the first attempt is blocked the function sleeps 2 seconds
  and then sends the request again.
\<close>

lemma mockup_world:
  assumes "azure_credentials env = Some (api_key, endpoint)"
    and "b64decode env original_image_data = Inr image_bytes"
  shows "snd (create_restoration_mockup env w original_image_data description) =
     (let request = edit_request_of env endpoint api_key description image_bytes in
      if first_attempt_blocked env w request
      then w\<lparr>edit_trace := edit_trace w @ [Posted request, Slept 2, Posted request]\<rparr>
      else w\<lparr>edit_trace := edit_trace w @ [Posted request]\<rparr>)"
proof -
  define request where "request = edit_request_of env endpoint api_key description image_bytes"
  define w1 where "w1 = w\<lparr>edit_trace := edit_trace w @ [Posted request]\<rparr>"
  define w1s where "w1s = w1\<lparr>edit_trace := edit_trace w1 @ [Slept 2]\<rparr>"
  obtain r1 where r1: "post_once env w request = (r1, w1)"
    using post_once_world [of env w request] by (cases "post_once env w request") (simp add: w1_def)
  obtain r2 where r2: "post_once env w1s request =
      (r2, w\<lparr>edit_trace := edit_trace w @ [Posted request, Slept 2, Posted request]\<rparr>)"
    using post_once_world [of env w1s request]
    by (cases "post_once env w1s request") (simp add: w1_def w1s_def)
  show ?thesis
    using assms r1 r2
    by (auto simp: create_restoration_mockup_def first_attempt_blocked_def Let_def
        request_def [symmetric] w1_def w1s_def split: sum.splits prod.splits)
qed

text \<open>The function changes nothing but the trace of the edit.\<close>

lemma mockup_world_other:
  "\<exists>events. snd (create_restoration_mockup env w original_image_data description) =
     w\<lparr>edit_trace := events\<rparr>"
proof -
  have same: "w = w\<lparr>edit_trace := edit_trace w\<rparr>"
    by simp
  show ?thesis
  proof (cases "azure_credentials env")
    case None
    then have "snd (create_restoration_mockup env w original_image_data description) = w"
      by (simp add: mockup_no_credentials)
    with same show ?thesis by metis
  next
    case (Some c)
    obtain k ep where "c = (k, ep)" by (cases c)
    with Some have cr: "azure_credentials env = Some (k, ep)" by simp
    show ?thesis
    proof (cases "b64decode env original_image_data")
      case (Inl e)
      with cr have "snd (create_restoration_mockup env w original_image_data description) = w"
        by (simp add: mockup_decode_raises)
      with same show ?thesis by metis
    next
      case (Inr image_bytes)
      let ?request = "edit_request_of env ep k description image_bytes"
      show ?thesis
      proof (cases "first_attempt_blocked env w ?request")
        case True
        with mockup_world [OF cr Inr, of w description]
        have "snd (create_restoration_mockup env w original_image_data description) =
            w\<lparr>edit_trace := edit_trace w @ [Posted ?request, Slept 2, Posted ?request]\<rparr>"
          by (simp add: Let_def)
        then show ?thesis by blast
      next
        case False
        with mockup_world [OF cr Inr, of w description]
        have "snd (create_restoration_mockup env w original_image_data description) =
            w\<lparr>edit_trace := edit_trace w @ [Posted ?request]\<rparr>"
          by (simp add: Let_def)
        then show ?thesis by blast
      qed
    qed
  qed
qed

lemma mockup_requests:
  assumes "azure_credentials env = Some (api_key, endpoint)"
    and "b64decode env original_image_data = Inr image_bytes"
  shows "edit_requests (snd (create_restoration_mockup env w original_image_data description)) =
     (let request = edit_request_of env endpoint api_key description image_bytes in
      edit_requests w @ (if first_attempt_blocked env w request then [request, request] else [request]))"
  using mockup_world [OF assms, of w description]
  by (simp add: Let_def posted_append edit_requests_def)

lemma mockup_at_most_two_requests:
  "length (edit_requests (snd (create_restoration_mockup env w original_image_data description)))
     \<le> length (edit_requests w) + 2"
proof (cases "azure_credentials env")
  case None
  then show ?thesis by (simp add: mockup_no_credentials)
next
  case (Some c)
  obtain k ep where "c = (k, ep)" by (cases c)
  with Some have cr: "azure_credentials env = Some (k, ep)" by simp
  show ?thesis
  proof (cases "b64decode env original_image_data")
    case (Inl e)
    with cr show ?thesis by (simp add: mockup_decode_raises)
  next
    case (Inr image_bytes)
    show ?thesis
      using mockup_requests [OF cr Inr, of w description] by (simp add: Let_def)
  qed
qed

text \<open>
  The code read from a result is \<^verbatim>\<open>"moderation_blocked"\<close> exactly when the result is a
  text that \<^verbatim>\<open>json.loads\<close> parses to a dict whose \<^verbatim>\<open>"error"\<close> is a dict with that
  text under \<^verbatim>\<open>"code"\<close>.
\<close>

lemma err_code_blocked_iff:
  "err_code_of env result = JStr ''moderation_blocked'' \<longleftrightarrow>
     (\<exists>s kvs err. result = JStr s \<and> json_loads env s = Some (JObj kvs) \<and>
        map_of kvs ''error'' = Some (JObj err) \<and>
        map_of err ''code'' = Some (JStr ''moderation_blocked''))"
proof (cases result)
  case (JStr s)
  show ?thesis
  proof (cases "json_loads env s")
    case None
    with JStr show ?thesis by (simp add: err_code_of_def)
  next
    case (Some v)
    show ?thesis
    proof (cases v)
      case (JObj kvs)
      show ?thesis
      proof (cases "map_of kvs ''error''")
        case None
        with JStr Some JObj show ?thesis by (simp add: err_code_of_def)
      next
        case e: (Some ev)
        with JStr Some JObj show ?thesis
          by (cases ev) (auto simp: err_code_of_def split: option.splits)
      qed
    qed (insert JStr Some, simp_all add: err_code_of_def)
  qed
qed (simp_all add: err_code_of_def)

lemma first_attempt_blocked_iff:
  "first_attempt_blocked env w request \<longleftrightarrow>
     (\<exists>s kvs err. fst (post_once env w request) = Inr (False, JStr s) \<and>
        json_loads env s = Some (JObj kvs) \<and> map_of kvs ''error'' = Some (JObj err) \<and>
        map_of err ''code'' = Some (JStr ''moderation_blocked''))"
proof (cases "fst (post_once env w request)")
  case (Inl e)
  then show ?thesis by (simp add: first_attempt_blocked_def)
next
  case (Inr p)
  obtain success result where "p = (success, result)" by (cases p)
  with Inr show ?thesis
    by (auto simp: first_attempt_blocked_def err_code_blocked_iff)
qed

text \<open>
  Claim C2.  A call of \<^verbatim>\<open>create_restoration_mockup\<close> issues at most two edit requests.
  When the credentials are set and the image decodes, it sends the request once.  If
  and only if the first attempt failed with the code \<^verbatim>\<open>"moderation_blocked"\<close>, that is,
  its result is a text that parses to a dict whose \<^verbatim>\<open>"error"\<close> is a dict with exactly
  that text under \<^verbatim>\<open>"code"\<close>, it then sleeps 2 seconds and after that sends the
  identical request a second time: the trace of the call is the request, the delay, the
  request, in this order.  Whatever the answer to the second request, there is no third,
  and in every other case the trace is the one request.
\<close>

theorem moderation_retry_exactly_once:
  "length (edit_requests (snd (create_restoration_mockup env w original_image_data description)))
     \<le> length (edit_requests w) + 2 \<and>
   (azure_credentials env = Some (api_key, endpoint) \<and>
    b64decode env original_image_data = Inr image_bytes \<longrightarrow>
      (let request = edit_request_of env endpoint api_key description image_bytes;
           retried = first_attempt_blocked env w request;
           w2 = snd (create_restoration_mockup env w original_image_data description)
       in edit_trace w2 =
            edit_trace w @ (if retried then [Posted request, Slept 2, Posted request]
                            else [Posted request]) \<and>
          edit_requests w2 = edit_requests w @ (if retried then [request, request] else [request]))) \<and>
   (first_attempt_blocked env w request \<longleftrightarrow>
      (\<exists>s kvs err. fst (post_once env w request) = Inr (False, JStr s) \<and>
         json_loads env s = Some (JObj kvs) \<and> map_of kvs ''error'' = Some (JObj err) \<and>
         map_of err ''code'' = Some (JStr ''moderation_blocked'')))"
proof (intro conjI impI)
  show "length (edit_requests (snd (create_restoration_mockup env w original_image_data description)))
     \<le> length (edit_requests w) + 2"
    by (rule mockup_at_most_two_requests)
next
  assume h: "azure_credentials env = Some (api_key, endpoint) \<and>
    b64decode env original_image_data = Inr image_bytes"
  then have c: "azure_credentials env = Some (api_key, endpoint)"
    and dec: "b64decode env original_image_data = Inr image_bytes"
    by simp_all
  show "let request = edit_request_of env endpoint api_key description image_bytes;
           retried = first_attempt_blocked env w request;
           w2 = snd (create_restoration_mockup env w original_image_data description)
       in edit_trace w2 =
            edit_trace w @ (if retried then [Posted request, Slept 2, Posted request]
                            else [Posted request]) \<and>
          edit_requests w2 = edit_requests w @ (if retried then [request, request] else [request])"
    using mockup_world [OF c dec, of w description] mockup_requests [OF c dec, of w description]
    by (simp add: Let_def)
next
  show "first_attempt_blocked env w request \<longleftrightarrow>
      (\<exists>s kvs err. fst (post_once env w request) = Inr (False, JStr s) \<and>
         json_loads env s = Some (JObj kvs) \<and> map_of kvs ''error'' = Some (JObj err) \<and>
         map_of err ''code'' = Some (JStr ''moderation_blocked''))"
    by (rule first_attempt_blocked_iff)
qed

lemma sample_blocked:
  "first_attempt_blocked (sample_env credentials_set v p edit_blocked_then_restores) initial_world request"
  by (simp add: first_attempt_blocked_def post_once_def initial_world_def Let_def
      edit_blocked_then_restores_def err_code_of_def sample_json_loads_def moderation_payload_def
      edit_requests_def)

text \<open>
  The first answer has status 400 and the body
  \<^verbatim>\<open>{"error": {"code": "moderation_blocked"}}\<close>; the trace is the request, the delay
  of 2 seconds, the request.
\<close>

theorem moderation_retry_exactly_once_witness:
  "edit_trace (snd (create_restoration_mockup
      (sample_env credentials_set service_down service_down edit_blocked_then_restores)
      initial_world ''aGk='' ''plan'')) =
     [Posted (edit_request_of
        (sample_env credentials_set service_down service_down edit_blocked_then_restores)
        ''https://example.openai.azure.com'' ''secret'' ''plan'' ''hi''),
      Slept 2,
      Posted (edit_request_of
        (sample_env credentials_set service_down service_down edit_blocked_then_restores)
        ''https://example.openai.azure.com'' ''secret'' ''plan'' ''hi'')]"
proof -
  let ?env = "sample_env credentials_set service_down service_down edit_blocked_then_restores"
  let ?request = "edit_request_of ?env ''https://example.openai.azure.com'' ''secret'' ''plan'' ''hi''"
  have c: "azure_credentials ?env = Some (''secret'', ''https://example.openai.azure.com'')"
    by (rule sample_credentials)
  have dec: "b64decode ?env ''aGk='' = Inr ''hi''"
    by simp
  have blocked: "first_attempt_blocked ?env initial_world ?request"
    by (rule sample_blocked)
  from moderation_retry_exactly_once
      [of ?env initial_world "''aGk=''" "''plan''" "''secret''" "''https://example.openai.azure.com''"
        "''hi''"] c dec
  have "let request = ?request;
           retried = first_attempt_blocked ?env initial_world request;
           w2 = snd (create_restoration_mockup ?env initial_world ''aGk='' ''plan'')
       in edit_trace w2 =
            edit_trace initial_world @ (if retried then [Posted request, Slept 2, Posted request]
                            else [Posted request]) \<and>
          edit_requests w2 = edit_requests initial_world @ (if retried then [request, request] else [request])"
    by blast
  with blocked show ?thesis
    by (simp add: Let_def initial_world_def)
qed

subsection \<open>The plan generation and the two inner handlers\<close>

lemma generate_no_credentials:
  "azure_credentials env = None \<Longrightarrow>
   generate_restoration_description_with_azure env w prompt building_analysis =
     (Inl (Exn PlainException ''Azure credentials not available''), w)"
  by (simp add: generate_restoration_description_with_azure_def)

lemma generate_remote:
  "azure_credentials env = Some (k, ep) \<Longrightarrow>
   generate_restoration_description_with_azure env w prompt building_analysis =
     (plan_complete env (length (plan_requests w)) (plan_request env ep k prompt building_analysis),
      w\<lparr>plan_requests := plan_requests w @ [plan_request env ep k prompt building_analysis]\<rparr>)"
  by (simp add: generate_restoration_description_with_azure_def Let_def)

lemma generate_world:
  "\<exists>q. snd (generate_restoration_description_with_azure env w prompt building_analysis) =
     w\<lparr>plan_requests := q\<rparr>"
proof (cases "azure_credentials env")
  case None
  then have "snd (generate_restoration_description_with_azure env w prompt building_analysis) =
      w\<lparr>plan_requests := plan_requests w\<rparr>"
    by (simp add: generate_no_credentials)
  then show ?thesis by blast
next
  case (Some c)
  obtain k ep where "c = (k, ep)" by (cases c)
  with Some have "azure_credentials env = Some (k, ep)" by simp
  then have "snd (generate_restoration_description_with_azure env w prompt building_analysis) =
      w\<lparr>plan_requests := plan_requests w @ [plan_request env ep k prompt building_analysis]\<rparr>"
    by (simp add: generate_remote)
  then show ?thesis by blast
qed

lemma plan_stage_eq:
  "plan_stage env w prompt building_analysis selected_style =
     (case fst (generate_restoration_description_with_azure env w prompt building_analysis) of
        Inl e \<Rightarrow> templated_plan selected_style
      | Inr description \<Rightarrow> description,
      snd (generate_restoration_description_with_azure env w prompt building_analysis))"
  by (simp add: plan_stage_def split: prod.splits sum.splits)

lemma plan_stage_world:
  "\<exists>q. snd (plan_stage env w prompt building_analysis selected_style) = w\<lparr>plan_requests := q\<rparr>"
  using generate_world [of env w prompt building_analysis] by (simp add: plan_stage_eq)

lemma edit_stage_eq:
  "edit_stage env w image_data restoration_description =
     (case fst (create_restoration_mockup env w image_data restoration_description) of
        Inl e \<Rightarrow> (JStr image_data, False, snd (create_restoration_mockup env w image_data restoration_description))
      | Inr restored \<Rightarrow> (restored, restored \<noteq> JStr image_data,
          snd (create_restoration_mockup env w image_data restoration_description)))"
  by (simp add: edit_stage_def split: prod.splits sum.splits)

lemma edit_stage_flag:
  "edit_stage env w image_data restoration_description = (restored, ok, w3) \<Longrightarrow>
   ok \<longleftrightarrow> restored \<noteq> JStr image_data"
  by (auto simp: edit_stage_eq split: sum.splits)

lemma edit_stage_world:
  assumes "edit_stage env w image_data restoration_description = (restored, ok, w3)"
  shows "\<exists>events. w3 = w\<lparr>edit_trace := events\<rparr>"
proof -
  from assms have "w3 = snd (create_restoration_mockup env w image_data restoration_description)"
    by (auto simp: edit_stage_eq split: sum.splits)
  moreover obtain events where
    "snd (create_restoration_mockup env w image_data restoration_description) =
       w\<lparr>edit_trace := events\<rparr>"
    using mockup_world_other [of env w image_data restoration_description] by blast
  ultimately have "w3 = w\<lparr>edit_trace := events\<rparr>" by simp
  then show ?thesis by blast
qed

subsection \<open>The orchestrator\<close>

lemma length_uuid_hex: "length (uuid_hex u) = 32"
  by (simp add: uuid_hex_def)

text \<open>
  With a dict as options the \<^verbatim>\<open>try\<close> block runs the three stages and returns the
  record that it stores.
\<close>

lemma restore_try_Dict:
  "\<exists>a w1 description w2 restored ok w3 r.
     analyze_building_with_azure env w image_data = (Inr a, w1) \<and>
     plan_stage env w1
       (RESTORATION_PROMPT
          (''Use a '' @ opt_format (dict_get d ''style'' (OStr ''Modern renovation'')) @
           '' style for the restoration.'')
          (join '' '' (additional_instructions_of d a)))
       a (dict_get d ''style'' (OStr ''Modern renovation'')) = (description, w2) \<and>
     edit_stage env w2 image_data description = (restored, ok, w3) \<and>
     plan_requests w1 = plan_requests w \<and> edit_trace w2 = edit_trace w \<and>
     r = \<lparr>r_id = result_id,
          r_prompt = RESTORATION_PROMPT
            (''Use a '' @ opt_format (dict_get d ''style'' (OStr ''Modern renovation'')) @
             '' style for the restoration.'')
            (join '' '' (additional_instructions_of d a)),
          r_original_image = image_data, r_restored_image = restored, r_options = Dict d,
          r_azure_analysis = a, r_restoration_description = description,
          r_restoration_success = ok,
          r_address = (case address of None \<Rightarrow> [] | Some s \<Rightarrow> s),
          r_location = convert_location env lat lon,
          r_created_at = strftime env (uuids_drawn w3)\<rparr> \<and>
     restore_try env w result_id image_data (Dict d) address lat lon =
       (Inr r, w3\<lparr>restoration_results := (restoration_results w3)(result_id \<mapsto> r)\<rparr>)"
proof -
  obtain a w1 where a: "analyze_building_with_azure env w image_data = (Inr a, w1)"
    using analyze_no_raise [of env w image_data]
    by (cases "analyze_building_with_azure env w image_data") auto
  let ?style = "dict_get d ''style'' (OStr ''Modern renovation'')"
  let ?prompt = "RESTORATION_PROMPT (''Use a '' @ opt_format ?style @ '' style for the restoration.'')
      (join '' '' (additional_instructions_of d a))"
  obtain description w2 where p: "plan_stage env w1 ?prompt a ?style = (description, w2)"
    by (cases "plan_stage env w1 ?prompt a ?style")
  obtain restored ok w3 where e: "edit_stage env w2 image_data description = (restored, ok, w3)"
    by (cases "edit_stage env w2 image_data description")
  obtain c q where "snd (analyze_building_with_azure env w image_data) =
      w\<lparr>analysis_cache := c, vision_requests := q\<rparr>"
    using analyze_world by blast
  with a have w1: "w1 = w\<lparr>analysis_cache := c, vision_requests := q\<rparr>" by simp
  obtain pq where "snd (plan_stage env w1 ?prompt a ?style) = w1\<lparr>plan_requests := pq\<rparr>"
    using plan_stage_world by blast
  with p have w2: "w2 = w1\<lparr>plan_requests := pq\<rparr>" by simp
  from w1 w2 have "plan_requests w1 = plan_requests w \<and> edit_trace w2 = edit_trace w"
    by simp
  then show ?thesis
    using a p e by (simp add: restore_try_def Let_def)
qed

lemma restore_no_credentials:
  "azure_credentials env = None \<Longrightarrow>
   restore_building_image env w image_data options address lat lon = (Inr credentials_error, w)"
  by (simp add: restore_building_image_def)

lemma restore_eq:
  "azure_credentials env = Some c \<Longrightarrow>
   restore_building_image env w image_data options address lat lon =
     (case fst (restore_try env (w\<lparr>uuids_drawn := Suc (uuids_drawn w)\<rparr>)
                 (uuid_hex (uuid4 env (uuids_drawn w))) image_data options address lat lon) of
        Inl e \<Rightarrow> Inr (pipeline_error e (uuid_hex (uuid4 env (uuids_drawn w))))
      | Inr r \<Rightarrow> Inr (Result r),
      snd (restore_try env (w\<lparr>uuids_drawn := Suc (uuids_drawn w)\<rparr>)
            (uuid_hex (uuid4 env (uuids_drawn w))) image_data options address lat lon))"
  by (simp add: restore_building_image_def Let_def split: prod.splits sum.splits)

lemma restore_no_raise:
  "\<exists>out. fst (restore_building_image env w image_data options address lat lon) = Inr out"
  by (cases "azure_credentials env") (simp_all add: restore_no_credentials restore_eq split: sum.splits)

text \<open>
  Claim C1.  \<^verbatim>\<open>restore_building_image\<close> never raises.  When the API key or the
  endpoint is unset or empty it returns the credentials error and changes nothing.
  Otherwise, for every image and every dict of options, it returns a record whose
  identifier has 32 characters, and the record is stored under that identifier.
\<close>

theorem restore_returns_record_or_credentials_error:
  "(\<exists>out. fst (restore_building_image env w image_data options address lat lon) = Inr out) \<and>
   (azure_credentials env = None \<longrightarrow>
      restore_building_image env w image_data options address lat lon = (Inr credentials_error, w)) \<and>
   (azure_credentials env \<noteq> None \<longrightarrow>
      (\<exists>r. fst (restore_building_image env w image_data (Dict d) address lat lon) = Inr (Result r) \<and>
           r_id r \<noteq> [] \<and> length (r_id r) = 32 \<and>
           restoration_results (snd (restore_building_image env w image_data (Dict d) address lat lon))
             (r_id r) = Some r))"
proof (intro conjI impI)
  show "\<exists>out. fst (restore_building_image env w image_data options address lat lon) = Inr out"
    by (rule restore_no_raise)
next
  assume "azure_credentials env = None"
  then show "restore_building_image env w image_data options address lat lon = (Inr credentials_error, w)"
    by (rule restore_no_credentials)
next
  assume "azure_credentials env \<noteq> None"
  then obtain c where c: "azure_credentials env = Some c" by blast
  let ?id = "uuid_hex (uuid4 env (uuids_drawn w))"
  from restore_try_Dict [of env "w\<lparr>uuids_drawn := Suc (uuids_drawn w)\<rparr>" image_data d ?id address lat lon]
  obtain r w3 where r: "r_id r = ?id"
    and t: "restore_try env (w\<lparr>uuids_drawn := Suc (uuids_drawn w)\<rparr>) ?id image_data (Dict d) address lat lon =
       (Inr r, w3\<lparr>restoration_results := (restoration_results w3)(?id \<mapsto> r)\<rparr>)"
    by auto
  have "length ?id = 32" by (rule length_uuid_hex)
  with r t c show "\<exists>r. fst (restore_building_image env w image_data (Dict d) address lat lon) = Inr (Result r) \<and>
           r_id r \<noteq> [] \<and> length (r_id r) = 32 \<and>
           restoration_results (snd (restore_building_image env w image_data (Dict d) address lat lon))
             (r_id r) = Some r"
    by (auto simp: restore_eq)
qed

theorem restore_returns_record_or_credentials_error_witness:
  "restore_building_image
     (sample_env Map.empty service_down service_down edit_unavailable)
     initial_world ''aGk='' (Dict Map.empty) None None None = (Inr credentials_error, initial_world) \<and>
   (\<exists>r. fst (restore_building_image
             (sample_env credentials_set service_down service_down edit_unavailable)
             initial_world ''aGk='' (Dict Map.empty) None None None) = Inr (Result r) \<and>
        r_id r \<noteq> [] \<and> length (r_id r) = 32 \<and>
        restoration_results (snd (restore_building_image
             (sample_env credentials_set service_down service_down edit_unavailable)
             initial_world ''aGk='' (Dict Map.empty) None None None)) (r_id r) = Some r)"
  using restore_returns_record_or_credentials_error
      [of "sample_env Map.empty service_down service_down edit_unavailable"
        initial_world "''aGk=''" "Dict Map.empty" None None None Map.empty]
    restore_returns_record_or_credentials_error
      [of "sample_env credentials_set service_down service_down edit_unavailable"
        initial_world "''aGk=''" "Dict Map.empty" None None None Map.empty]
  by (simp add: sample_credentials sample_no_credentials)

lemma restore_try_NotADict:
  "fst (restore_try env w result_id image_data (NotADict tn) address lat lon) =
     Inl (no_attribute_get tn) \<and>
   restoration_results (snd (restore_try env w result_id image_data (NotADict tn) address lat lon)) =
     restoration_results w"
proof -
  obtain a where a: "fst (analyze_building_with_azure env w image_data) = Inr a"
    using analyze_no_raise by blast
  obtain c q where w1: "snd (analyze_building_with_azure env w image_data) =
      w\<lparr>analysis_cache := c, vision_requests := q\<rparr>"
    using analyze_world by blast
  from a w1 show ?thesis
    by (cases "analyze_building_with_azure env w image_data") (simp add: restore_try_def)
qed

text \<open>
  With credentials and a dict as options the function returns the record of
  \<open>restore_try\<close>, stored under the identifier drawn before the \<^verbatim>\<open>try\<close> block.
\<close>

lemma restore_Dict:
  assumes "azure_credentials env = Some c"
  shows "\<exists>a w1 description w2 restored ok w3 r.
     analyze_building_with_azure env (w\<lparr>uuids_drawn := Suc (uuids_drawn w)\<rparr>) image_data = (Inr a, w1) \<and>
     plan_stage env w1
       (RESTORATION_PROMPT
          (''Use a '' @ opt_format (dict_get d ''style'' (OStr ''Modern renovation'')) @
           '' style for the restoration.'')
          (join '' '' (additional_instructions_of d a)))
       a (dict_get d ''style'' (OStr ''Modern renovation'')) = (description, w2) \<and>
     edit_stage env w2 image_data description = (restored, ok, w3) \<and>
     plan_requests w1 = plan_requests w \<and> edit_trace w2 = edit_trace w \<and>
     r = \<lparr>r_id = uuid_hex (uuid4 env (uuids_drawn w)),
          r_prompt = RESTORATION_PROMPT
            (''Use a '' @ opt_format (dict_get d ''style'' (OStr ''Modern renovation'')) @
             '' style for the restoration.'')
            (join '' '' (additional_instructions_of d a)),
          r_original_image = image_data, r_restored_image = restored, r_options = Dict d,
          r_azure_analysis = a, r_restoration_description = description,
          r_restoration_success = ok,
          r_address = (case address of None \<Rightarrow> [] | Some s \<Rightarrow> s),
          r_location = convert_location env lat lon,
          r_created_at = strftime env (uuids_drawn w3)\<rparr> \<and>
     restore_building_image env w image_data (Dict d) address lat lon =
       (Inr (Result r),
        w3\<lparr>restoration_results := (restoration_results w3)(uuid_hex (uuid4 env (uuids_drawn w)) \<mapsto> r)\<rparr>)"
  using restore_try_Dict [of env "w\<lparr>uuids_drawn := Suc (uuids_drawn w)\<rparr>" image_data d
      "uuid_hex (uuid4 env (uuids_drawn w))" address lat lon] assms
  by (auto simp: restore_eq)

text \<open>
  Claim C4.  In every record that \<^verbatim>\<open>restore_building_image\<close> returns, and which it
  has stored, the original image is the input, and the success flag is true if and only
  if the restored image differs from the original image.  The flag is computed from the
  two images, whatever the status of the response was.
\<close>

theorem success_flag_iff_image_differs:
  assumes "fst (restore_building_image env w image_data options address lat lon) = Inr (Result r)"
  shows "r_original_image r = image_data \<and>
         (r_restoration_success r \<longleftrightarrow> r_restored_image r \<noteq> JStr (r_original_image r)) \<and>
         restoration_results (snd (restore_building_image env w image_data options address lat lon))
           (r_id r) = Some r"
proof (cases "azure_credentials env")
  case None
  with assms show ?thesis
    by (simp add: restore_no_credentials credentials_error_def)
next
  case (Some c)
  show ?thesis
  proof (cases options)
    case (NotADict tn)
    with assms Some restore_try_NotADict [of env "w\<lparr>uuids_drawn := Suc (uuids_drawn w)\<rparr>"
        "uuid_hex (uuid4 env (uuids_drawn w))" image_data tn address lat lon]
    show ?thesis
      by (simp add: restore_eq pipeline_error_def)
  next
    case (Dict d)
    from restore_Dict [OF Some, of w image_data d address lat lon]
    obtain a description w2 restored ok w3 r' where
      e: "edit_stage env w2 image_data description = (restored, ok, w3)" and
      r': "r' = \<lparr>r_id = uuid_hex (uuid4 env (uuids_drawn w)),
          r_prompt = RESTORATION_PROMPT
            (''Use a '' @ opt_format (dict_get d ''style'' (OStr ''Modern renovation'')) @
             '' style for the restoration.'')
            (join '' '' (additional_instructions_of d a)),
          r_original_image = image_data, r_restored_image = restored, r_options = Dict d,
          r_azure_analysis = a, r_restoration_description = description,
          r_restoration_success = ok,
          r_address = (case address of None \<Rightarrow> [] | Some s \<Rightarrow> s),
          r_location = convert_location env lat lon,
          r_created_at = strftime env (uuids_drawn w3)\<rparr>" and
      run: "restore_building_image env w image_data (Dict d) address lat lon =
       (Inr (Result r'),
        w3\<lparr>restoration_results := (restoration_results w3)(uuid_hex (uuid4 env (uuids_drawn w)) \<mapsto> r')\<rparr>)"
      by blast
    from assms Dict run have "r = r'" by simp
    with r' run Dict edit_stage_flag [OF e] show ?thesis by simp
  qed
qed

lemma sample_mockup_restores:
  "fst (create_restoration_mockup (sample_env credentials_set v p edit_restores) w ''aGk='' description)
     = Inr (JStr ''bmV3'')"
  by (simp add: create_restoration_mockup_def post_once_def sample_credentials edit_restores_def
      payload_result_def restored_payload_def Let_def)

lemma sample_mockup_echoes:
  "fst (create_restoration_mockup (sample_env credentials_set v p edit_echoes) w ''aGk='' description)
     = Inr (JStr ''aGk='')"
  by (simp add: create_restoration_mockup_def post_once_def sample_credentials edit_echoes_def
      payload_result_def echo_payload_def Let_def)

theorem success_flag_iff_image_differs_witness:
  "(\<exists>r. fst (restore_building_image
             (sample_env credentials_set service_down service_down edit_restores)
             initial_world ''aGk='' (Dict Map.empty) None None None) = Inr (Result r) \<and>
        r_original_image r = ''aGk='' \<and> r_restored_image r = JStr ''bmV3'' \<and>
        r_restoration_success r) \<and>
   (\<exists>r. fst (restore_building_image
             (sample_env credentials_set service_down service_down edit_echoes)
             initial_world ''aGk='' (Dict Map.empty) None None None) = Inr (Result r) \<and>
        r_original_image r = ''aGk='' \<and> r_restored_image r = JStr ''aGk='' \<and>
        \<not> r_restoration_success r)"
proof (intro conjI)
  let ?env = "sample_env credentials_set service_down service_down edit_restores"
  from restore_Dict [OF sample_credentials, of service_down service_down edit_restores
      initial_world "''aGk=''" Map.empty None None None]
  obtain description w2 restored ok w3 r where
    e: "edit_stage ?env w2 ''aGk='' description = (restored, ok, w3)" and
    i: "r_restored_image r = restored" and
    run: "fst (restore_building_image ?env initial_world ''aGk='' (Dict Map.empty) None None None)
      = Inr (Result r)"
    by fastforce
  from e have "restored = JStr ''bmV3''"
    by (simp add: edit_stage_eq sample_mockup_restores)
  with i success_flag_iff_image_differs [OF run] run
  show "\<exists>r. fst (restore_building_image ?env initial_world ''aGk='' (Dict Map.empty) None None None)
        = Inr (Result r) \<and>
      r_original_image r = ''aGk='' \<and> r_restored_image r = JStr ''bmV3'' \<and> r_restoration_success r"
    by auto
next
  let ?env = "sample_env credentials_set service_down service_down edit_echoes"
  from restore_Dict [OF sample_credentials, of service_down service_down edit_echoes
      initial_world "''aGk=''" Map.empty None None None]
  obtain description w2 restored ok w3 r where
    e: "edit_stage ?env w2 ''aGk='' description = (restored, ok, w3)" and
    i: "r_restored_image r = restored" and
    run: "fst (restore_building_image ?env initial_world ''aGk='' (Dict Map.empty) None None None)
      = Inr (Result r)"
    by fastforce
  from e have "restored = JStr ''aGk=''"
    by (simp add: edit_stage_eq sample_mockup_echoes)
  with i success_flag_iff_image_differs [OF run] run
  show "\<exists>r. fst (restore_building_image ?env initial_world ''aGk='' (Dict Map.empty) None None None)
        = Inr (Result r) \<and>
      r_original_image r = ''aGk='' \<and> r_restored_image r = JStr ''aGk='' \<and> \<not> r_restoration_success r"
    by auto
qed

lemma restore_try_raises:
  assumes "fst (restore_try env w result_id image_data options address lat lon) = Inl e"
  shows "(\<exists>tn. options = NotADict tn \<and> e = no_attribute_get tn) \<and>
     restoration_results (snd (restore_try env w result_id image_data options address lat lon)) =
       restoration_results w \<and>
     uuids_drawn (snd (restore_try env w result_id image_data options address lat lon)) =
       uuids_drawn w"
proof (cases options)
  case (NotADict tn)
  obtain a where a: "fst (analyze_building_with_azure env w image_data) = Inr a"
    using analyze_no_raise by blast
  obtain c q where w1: "snd (analyze_building_with_azure env w image_data) =
      w\<lparr>analysis_cache := c, vision_requests := q\<rparr>"
    using analyze_world by blast
  from a w1 assms NotADict show ?thesis
    by (cases "analyze_building_with_azure env w image_data") (simp add: restore_try_def)
next
  case (Dict d)
  with assms restore_try_Dict [of env w image_data d result_id address lat lon]
  show ?thesis by auto
qed

text \<open>
  Claim C5.  When the credentials are set, the identifier is drawn before the
  \<^verbatim>\<open>try\<close> block runs.  If the block raises \<open>e\<close>, the function returns the error
  descriptor with the message "Restoration planning failed: " followed by the text of
  \<open>e\<close>, and with that identifier; the run stores nothing, so no record is under the
  identifier unless one was there before.  The error descriptor for missing credentials
  has no identifier, and no identifier is drawn for it.
\<close>

theorem pipeline_failure_carries_identifier:
  "(azure_credentials env = None \<longrightarrow>
      restore_building_image env w image_data options address lat lon = (Inr credentials_error, w) \<and>
      err_id credentials_error = None) \<and>
   (azure_credentials env \<noteq> None \<and>
    fst (restore_try env (w\<lparr>uuids_drawn := Suc (uuids_drawn w)\<rparr>)
           (uuid_hex (uuid4 env (uuids_drawn w))) image_data options address lat lon) = Inl e \<longrightarrow>
      (let result_id = uuid_hex (uuid4 env (uuids_drawn w));
           run = restore_building_image env w image_data options address lat lon
       in fst run =
            Inr (ErrorDescriptor (''Restoration planning failed: '' @ str_exn e)
                   ''Please check your Azure AI credentials and GPT-4.1 deployment''
                   (Some result_id)) \<and>
          result_id \<noteq> [] \<and>
          uuids_drawn (snd run) = Suc (uuids_drawn w) \<and>
          restoration_results (snd run) = restoration_results w \<and>
          (restoration_results w result_id = None \<longrightarrow> restoration_results (snd run) result_id = None)))"
proof (intro conjI impI)
  assume "azure_credentials env = None"
  then show "restore_building_image env w image_data options address lat lon = (Inr credentials_error, w)"
    by (rule restore_no_credentials)
next
  show "err_id credentials_error = None"
    by (simp add: credentials_error_def)
next
  assume h: "azure_credentials env \<noteq> None \<and>
    fst (restore_try env (w\<lparr>uuids_drawn := Suc (uuids_drawn w)\<rparr>)
           (uuid_hex (uuid4 env (uuids_drawn w))) image_data options address lat lon) = Inl e"
  then obtain c where c: "azure_credentials env = Some c" by blast
  have "length (uuid_hex (uuid4 env (uuids_drawn w))) = 32"
    by (rule length_uuid_hex)
  then have ne: "uuid_hex (uuid4 env (uuids_drawn w)) \<noteq> []" by auto
  from h restore_try_raises [of env "w\<lparr>uuids_drawn := Suc (uuids_drawn w)\<rparr>"
      "uuid_hex (uuid4 env (uuids_drawn w))" image_data options address lat lon e] ne
  show "let result_id = uuid_hex (uuid4 env (uuids_drawn w));
           run = restore_building_image env w image_data options address lat lon
       in fst run =
            Inr (ErrorDescriptor (''Restoration planning failed: '' @ str_exn e)
                   ''Please check your Azure AI credentials and GPT-4.1 deployment''
                   (Some result_id)) \<and>
          result_id \<noteq> [] \<and>
          uuids_drawn (snd run) = Suc (uuids_drawn w) \<and>
          restoration_results (snd run) = restoration_results w \<and>
          (restoration_results w result_id = None \<longrightarrow> restoration_results (snd run) result_id = None)"
    by (simp add: restore_eq [OF c] pipeline_error_def Let_def)
qed

theorem pipeline_failure_carries_identifier_witness:
  "restore_building_image
     (sample_env Map.empty service_down service_down edit_unavailable)
     initial_world ''aGk='' (NotADict ''NoneType'') None None None = (Inr credentials_error, initial_world) \<and>
   err_id credentials_error = None \<and>
   fst (restore_building_image
     (sample_env credentials_set service_down service_down edit_unavailable)
     initial_world ''aGk='' (NotADict ''NoneType'') None None None) =
     Inr (ErrorDescriptor
       (''Restoration planning failed: '' @ str_exn (no_attribute_get ''NoneType''))
       ''Please check your Azure AI credentials and GPT-4.1 deployment''
       (Some (uuid_hex 0))) \<and>
   restoration_results (snd (restore_building_image
     (sample_env credentials_set service_down service_down edit_unavailable)
     initial_world ''aGk='' (NotADict ''NoneType'') None None None)) (uuid_hex 0) = None"
proof -
  let ?off = "sample_env Map.empty service_down service_down edit_unavailable"
  let ?on = "sample_env credentials_set service_down service_down edit_unavailable"
  have raises: "fst (restore_try ?on (initial_world\<lparr>uuids_drawn := Suc (uuids_drawn initial_world)\<rparr>)
      (uuid_hex (uuid4 ?on (uuids_drawn initial_world))) ''aGk='' (NotADict ''NoneType'') None None None)
      = Inl (no_attribute_get ''NoneType'')"
    using restore_try_NotADict by blast
  have fresh: "restoration_results initial_world (uuid_hex 0) = None"
    by (simp add: initial_world_def)
  have zero: "uuid4 ?on (uuids_drawn initial_world) = 0"
    by (simp add: initial_world_def)
  show ?thesis
    using pipeline_failure_carries_identifier
        [of ?off initial_world "''aGk=''" "NotADict ''NoneType''" None None None
          "no_attribute_get ''NoneType''"]
      pipeline_failure_carries_identifier
        [of ?on initial_world "''aGk=''" "NotADict ''NoneType''" None None None
          "no_attribute_get ''NoneType''"]
      raises fresh zero
    by (simp add: sample_credentials sample_no_credentials Let_def)
qed



subsection \<open>Location\<close>

lemma restore_Dict_fields:
  assumes "azure_credentials env = Some c"
  shows "\<exists>r. fst (restore_building_image env w image_data (Dict d) address lat lon) = Inr (Result r) \<and>
     r_id r = uuid_hex (uuid4 env (uuids_drawn w)) \<and>
     r_prompt r = RESTORATION_PROMPT
            (''Use a '' @ opt_format (dict_get d ''style'' (OStr ''Modern renovation'')) @
             '' style for the restoration.'')
            (join '' '' (additional_instructions_of d (r_azure_analysis r))) \<and>
     r_original_image r = image_data \<and> r_options r = Dict d \<and>
     r_address r = (case address of None \<Rightarrow> [] | Some s \<Rightarrow> s) \<and>
     r_location r = convert_location env lat lon \<and>
     restoration_results (snd (restore_building_image env w image_data (Dict d) address lat lon))
       (r_id r) = Some r"
proof -
  from restore_Dict [OF assms, of w image_data d address lat lon]
  obtain a w1 description w2 restored ok w3 r where
    r: "r = \<lparr>r_id = uuid_hex (uuid4 env (uuids_drawn w)),
          r_prompt = RESTORATION_PROMPT
            (''Use a '' @ opt_format (dict_get d ''style'' (OStr ''Modern renovation'')) @
             '' style for the restoration.'')
            (join '' '' (additional_instructions_of d a)),
          r_original_image = image_data, r_restored_image = restored, r_options = Dict d,
          r_azure_analysis = a, r_restoration_description = description,
          r_restoration_success = ok,
          r_address = (case address of None \<Rightarrow> [] | Some s \<Rightarrow> s),
          r_location = convert_location env lat lon,
          r_created_at = strftime env (uuids_drawn w3)\<rparr>" and
    run: "restore_building_image env w image_data (Dict d) address lat lon =
       (Inr (Result r),
        w3\<lparr>restoration_results := (restoration_results w3)(uuid_hex (uuid4 env (uuids_drawn w)) \<mapsto> r)\<rparr>)"
    by blast
  have "fst (restore_building_image env w image_data (Dict d) address lat lon) = Inr (Result r)"
    using run by simp
  moreover have "restoration_results (snd (restore_building_image env w image_data (Dict d) address lat lon))
       (r_id r) = Some r"
    using run r by simp
  moreover have "r_id r = uuid_hex (uuid4 env (uuids_drawn w))" "r_original_image r = image_data"
    "r_options r = Dict d" "r_address r = (case address of None \<Rightarrow> [] | Some s \<Rightarrow> s)"
    "r_location r = convert_location env lat lon"
    "r_prompt r = RESTORATION_PROMPT
            (''Use a '' @ opt_format (dict_get d ''style'' (OStr ''Modern renovation'')) @
             '' style for the restoration.'')
            (join '' '' (additional_instructions_of d (r_azure_analysis r)))"
    using r by simp_all
  ultimately show ?thesis by blast
qed

lemma convert_location_none:
  assumes "lat = None \<or> lat = Some [] \<or> lon = None \<or> lon = Some [] \<or>
   (\<exists>s. lat = Some s \<and> float_of_str env s = None) \<or>
   (\<exists>s. lon = Some s \<and> float_of_str env s = None)"
  shows "convert_location env lat lon = \<lparr>loc_lat = None, loc_lon = None\<rparr>"
proof (cases lat)
  case None
  then show ?thesis by (simp add: convert_location_def)
next
  case la: (Some s)
  show ?thesis
  proof (cases lon)
    case None
    then show ?thesis by (simp add: convert_location_def)
  next
    case lo: (Some t)
    from assms la lo have "s = [] \<or> t = [] \<or> float_of_str env s = None \<or> float_of_str env t = None"
      by simp
    with la lo show ?thesis
      by (cases "float_of_str env s"; cases "float_of_str env t") (simp_all add: convert_location_def)
  qed
qed

lemma convert_location_both:
  "s \<noteq> [] \<Longrightarrow> t \<noteq> [] \<Longrightarrow> float_of_str env s = Some x \<Longrightarrow> float_of_str env t = Some y \<Longrightarrow>
   convert_location env (Some s) (Some t) = \<lparr>loc_lat = Some x, loc_lon = Some y\<rparr>"
  by (simp add: convert_location_def)

lemma convert_location_paired:
  "loc_lat (convert_location env lat lon) = None \<longleftrightarrow> loc_lon (convert_location env lat lon) = None"
  by (simp add: convert_location_def split: option.splits)

text \<open>
  Claim C9.  With credentials and a dict of options, \<^verbatim>\<open>restore_building_image\<close>
  returns a record for every pair of latitude and longitude arguments.  When an
  argument is absent or empty, or \<^verbatim>\<open>float\<close> raises on it, the location of the record
  has neither latitude nor longitude.  When \<^verbatim>\<open>float\<close> converts both, the location
  has both values.  In every case the latitude is absent exactly when the longitude is.
\<close>

theorem location_both_or_neither:
  "azure_credentials env \<noteq> None \<longrightarrow>
     (\<exists>r. fst (restore_building_image env w image_data (Dict d) address lat lon) = Inr (Result r) \<and>
        (lat = None \<or> lat = Some [] \<or> lon = None \<or> lon = Some [] \<or>
         (\<exists>s. lat = Some s \<and> float_of_str env s = None) \<or>
         (\<exists>s. lon = Some s \<and> float_of_str env s = None) \<longrightarrow>
           r_location r = \<lparr>loc_lat = None, loc_lon = None\<rparr>) \<and>
        (\<forall>s t x y. lat = Some s \<and> lon = Some t \<and> s \<noteq> [] \<and> t \<noteq> [] \<and>
            float_of_str env s = Some x \<and> float_of_str env t = Some y \<longrightarrow>
           r_location r = \<lparr>loc_lat = Some x, loc_lon = Some y\<rparr>) \<and>
        (loc_lat (r_location r) = None \<longleftrightarrow> loc_lon (r_location r) = None))"
proof
  assume "azure_credentials env \<noteq> None"
  then obtain c where c: "azure_credentials env = Some c" by blast
  from restore_Dict_fields [OF c, of w image_data d address lat lon]
  obtain r where run: "fst (restore_building_image env w image_data (Dict d) address lat lon) = Inr (Result r)"
    and loc: "r_location r = convert_location env lat lon"
    by blast
  show "\<exists>r. fst (restore_building_image env w image_data (Dict d) address lat lon) = Inr (Result r) \<and>
        (lat = None \<or> lat = Some [] \<or> lon = None \<or> lon = Some [] \<or>
         (\<exists>s. lat = Some s \<and> float_of_str env s = None) \<or>
         (\<exists>s. lon = Some s \<and> float_of_str env s = None) \<longrightarrow>
           r_location r = \<lparr>loc_lat = None, loc_lon = None\<rparr>) \<and>
        (\<forall>s t x y. lat = Some s \<and> lon = Some t \<and> s \<noteq> [] \<and> t \<noteq> [] \<and>
            float_of_str env s = Some x \<and> float_of_str env t = Some y \<longrightarrow>
           r_location r = \<lparr>loc_lat = Some x, loc_lon = Some y\<rparr>) \<and>
        (loc_lat (r_location r) = None \<longleftrightarrow> loc_lon (r_location r) = None)"
  proof (intro exI [of _ r] conjI impI allI)
    show "fst (restore_building_image env w image_data (Dict d) address lat lon) = Inr (Result r)"
      by (rule run)
  next
    assume "lat = None \<or> lat = Some [] \<or> lon = None \<or> lon = Some [] \<or>
         (\<exists>s. lat = Some s \<and> float_of_str env s = None) \<or>
         (\<exists>s. lon = Some s \<and> float_of_str env s = None)"
    then have "convert_location env lat lon = \<lparr>loc_lat = None, loc_lon = None\<rparr>"
      by (rule convert_location_none)
    with loc show "r_location r = \<lparr>loc_lat = None, loc_lon = None\<rparr>" by simp
  next
    fix s t x y
    assume "lat = Some s \<and> lon = Some t \<and> s \<noteq> [] \<and> t \<noteq> [] \<and>
            float_of_str env s = Some x \<and> float_of_str env t = Some y"
    then have "convert_location env lat lon = \<lparr>loc_lat = Some x, loc_lon = Some y\<rparr>"
      by (simp add: convert_location_both)
    with loc show "r_location r = \<lparr>loc_lat = Some x, loc_lon = Some y\<rparr>" by simp
  next
    show "loc_lat (r_location r) = None \<longleftrightarrow> loc_lon (r_location r) = None"
      unfolding loc by (rule convert_location_paired)
  qed
qed

theorem location_both_or_neither_witness:
  "(\<exists>r. fst (restore_building_image
             (sample_env credentials_set service_down service_down edit_unavailable)
             initial_world ''aGk='' (Dict Map.empty) (Some ''123 Main St'') (Some ''40.7'') (Some ''west''))
           = Inr (Result r) \<and>
        r_location r = \<lparr>loc_lat = None, loc_lon = None\<rparr>) \<and>
   (\<exists>r. fst (restore_building_image
             (sample_env credentials_set service_down service_down edit_unavailable)
             initial_world ''aGk='' (Dict Map.empty) (Some ''123 Main St'') (Some ''40.7'') (Some ''-74.0''))
           = Inr (Result r) \<and>
        r_location r = \<lparr>loc_lat = Some (407 / 10), loc_lon = Some (- 74)\<rparr>)"
proof (intro conjI)
  let ?env = "sample_env credentials_set service_down service_down edit_unavailable"
  have c: "azure_credentials ?env \<noteq> None"
    by (simp add: sample_credentials)
  have west: "float_of_str ?env ''west'' = None"
    by simp
  from location_both_or_neither
      [of ?env initial_world "''aGk=''" Map.empty "Some ''123 Main St''" "Some ''40.7''" "Some ''west''"] c
  obtain r where "fst (restore_building_image ?env initial_world ''aGk='' (Dict Map.empty)
          (Some ''123 Main St'') (Some ''40.7'') (Some ''west'')) = Inr (Result r)"
    and "(\<exists>s. Some ''west'' = Some s \<and> float_of_str ?env s = None) \<longrightarrow>
           r_location r = \<lparr>loc_lat = None, loc_lon = None\<rparr>"
    by blast
  with west show "\<exists>r. fst (restore_building_image ?env initial_world ''aGk='' (Dict Map.empty)
          (Some ''123 Main St'') (Some ''40.7'') (Some ''west'')) = Inr (Result r) \<and>
        r_location r = \<lparr>loc_lat = None, loc_lon = None\<rparr>"
    by blast
next
  let ?env = "sample_env credentials_set service_down service_down edit_unavailable"
  have c: "azure_credentials ?env \<noteq> None"
    by (simp add: sample_credentials)
  have la: "float_of_str ?env ''40.7'' = Some (407 / 10)" and lo: "float_of_str ?env ''-74.0'' = Some (- 74)"
    by simp_all
  have ne: "''40.7'' \<noteq> []" "''-74.0'' \<noteq> []"
    by simp_all
  from location_both_or_neither
      [of ?env initial_world "''aGk=''" Map.empty "Some ''123 Main St''" "Some ''40.7''" "Some ''-74.0''"] c
  obtain r where run: "fst (restore_building_image ?env initial_world ''aGk='' (Dict Map.empty)
          (Some ''123 Main St'') (Some ''40.7'') (Some ''-74.0'')) = Inr (Result r)"
    and both: "\<forall>s t x y. Some ''40.7'' = Some s \<and> Some ''-74.0'' = Some t \<and> s \<noteq> [] \<and> t \<noteq> [] \<and>
            float_of_str ?env s = Some x \<and> float_of_str ?env t = Some y \<longrightarrow>
           r_location r = \<lparr>loc_lat = Some x, loc_lon = Some y\<rparr>"
    by blast
  from both la lo ne have "r_location r = \<lparr>loc_lat = Some (407 / 10), loc_lon = Some (- 74)\<rparr>"
    by blast
  with run show "\<exists>r. fst (restore_building_image ?env initial_world ''aGk='' (Dict Map.empty)
          (Some ''123 Main St'') (Some ''40.7'') (Some ''-74.0'')) = Inr (Result r) \<and>
        r_location r = \<lparr>loc_lat = Some (407 / 10), loc_lon = Some (- 74)\<rparr>"
    by blast
qed

text \<open>
  The description of the record: the plan that the service returned, or the templated
  plan when the call of the service raised.  The edit stage runs on that description.
\<close>

lemma restore_Dict_description:
  assumes "azure_credentials env = Some (k, ep)"
  shows "\<exists>r w2 w3.
     fst (restore_building_image env w image_data (Dict d) address lat lon) = Inr (Result r) \<and>
     r_restoration_description r =
       (case plan_complete env (length (plan_requests w))
               (plan_request env ep k (r_prompt r) (r_azure_analysis r)) of
          Inl e \<Rightarrow> templated_plan (dict_get d ''style'' (OStr ''Modern renovation''))
        | Inr description \<Rightarrow> description) \<and>
     edit_stage env w2 image_data (r_restoration_description r) =
       (r_restored_image r, r_restoration_success r, w3) \<and>
     edit_trace w2 = edit_trace w \<and>
     snd (restore_building_image env w image_data (Dict d) address lat lon) =
       w3\<lparr>restoration_results := (restoration_results w3)(r_id r \<mapsto> r)\<rparr>"
proof -
  let ?style = "dict_get d ''style'' (OStr ''Modern renovation'')"
  from restore_Dict [OF assms, of w image_data d address lat lon]
  obtain a w1 description w2 restored ok w3 r where
    p: "plan_stage env w1
       (RESTORATION_PROMPT (''Use a '' @ opt_format ?style @ '' style for the restoration.'')
          (join '' '' (additional_instructions_of d a)))
       a ?style = (description, w2)" and
    e: "edit_stage env w2 image_data description = (restored, ok, w3)" and
    pr: "plan_requests w1 = plan_requests w" and
    er: "edit_trace w2 = edit_trace w" and
    r: "r = \<lparr>r_id = uuid_hex (uuid4 env (uuids_drawn w)),
          r_prompt = RESTORATION_PROMPT
            (''Use a '' @ opt_format ?style @ '' style for the restoration.'')
            (join '' '' (additional_instructions_of d a)),
          r_original_image = image_data, r_restored_image = restored, r_options = Dict d,
          r_azure_analysis = a, r_restoration_description = description,
          r_restoration_success = ok,
          r_address = (case address of None \<Rightarrow> [] | Some s \<Rightarrow> s),
          r_location = convert_location env lat lon,
          r_created_at = strftime env (uuids_drawn w3)\<rparr>" and
    run: "restore_building_image env w image_data (Dict d) address lat lon =
       (Inr (Result r),
        w3\<lparr>restoration_results := (restoration_results w3)(uuid_hex (uuid4 env (uuids_drawn w)) \<mapsto> r)\<rparr>)"
    by blast
  have fields: "r_prompt r = RESTORATION_PROMPT
            (''Use a '' @ opt_format ?style @ '' style for the restoration.'')
            (join '' '' (additional_instructions_of d a))"
    "r_azure_analysis r = a" "r_restoration_description r = description"
    "r_restored_image r = restored" "r_restoration_success r = ok"
    "r_id r = uuid_hex (uuid4 env (uuids_drawn w))"
    using r by simp_all
  have d: "description =
       (case plan_complete env (length (plan_requests w))
               (plan_request env ep k (r_prompt r) (r_azure_analysis r)) of
          Inl e \<Rightarrow> templated_plan ?style
        | Inr description \<Rightarrow> description)"
    using p pr unfolding fields(1) fields(2)
    by (simp add: plan_stage_eq generate_remote [OF assms])
  have 1: "fst (restore_building_image env w image_data (Dict d) address lat lon) = Inr (Result r)"
    using run by simp
  have 2: "snd (restore_building_image env w image_data (Dict d) address lat lon) =
       w3\<lparr>restoration_results := (restoration_results w3)(r_id r \<mapsto> r)\<rparr>"
    using run fields(6) by simp
  have 3: "edit_stage env w2 image_data (r_restoration_description r) =
       (r_restored_image r, r_restoration_success r, w3)"
    using e fields by simp
  have 4: "r_restoration_description r =
       (case plan_complete env (length (plan_requests w))
               (plan_request env ep k (r_prompt r) (r_azure_analysis r)) of
          Inl e \<Rightarrow> templated_plan ?style
        | Inr description \<Rightarrow> description)"
    using d fields(3) by simp
  from 1 2 3 4 er show ?thesis by blast
qed
text \<open>
  Claim C6.  A failure of the plan generation reaches the caller as an exception: the
  exception for missing credentials, or the one that the call of the service raised.
  In \<^verbatim>\<open>restore_building_image\<close>, when the call of the plan service raises, the
  description of the record is the templated plan for the chosen style; the edit stage
  runs on it (when the image decodes, the one or two edit requests of the run carry that
  plan), and the record is returned and stored.
\<close>

theorem plan_failure_is_absorbed:
  "(azure_credentials env = None \<longrightarrow>
      fst (generate_restoration_description_with_azure env w prompt building_analysis) =
        Inl (Exn PlainException ''Azure credentials not available'')) \<and>
   (azure_credentials env = Some (k, ep) \<and>
    plan_complete env (length (plan_requests w)) (plan_request env ep k prompt building_analysis) = Inl e \<longrightarrow>
      fst (generate_restoration_description_with_azure env w prompt building_analysis) = Inl e) \<and>
   (azure_credentials env = Some (k, ep) \<longrightarrow>
      (\<exists>r. fst (restore_building_image env w image_data (Dict d) address lat lon) = Inr (Result r) \<and>
         restoration_results (snd (restore_building_image env w image_data (Dict d) address lat lon))
           (r_id r) = Some r \<and>
         (isl (plan_complete env (length (plan_requests w))
                 (plan_request env ep k (r_prompt r) (r_azure_analysis r))) \<longrightarrow>
            r_restoration_description r =
              ''Restoration plan for '' @ opt_format (dict_get d ''style'' (OStr ''Modern renovation'')) @
              '' style renovation based on the analysis.'' \<and>
            (\<forall>image_bytes. b64decode env image_data = Inr image_bytes \<longrightarrow>
               (let request = edit_request_of env ep k (r_restoration_description r) image_bytes;
                    sent = edit_requests (snd (restore_building_image env w image_data (Dict d) address lat lon))
                in sent = edit_requests w @ [request] \<or> sent = edit_requests w @ [request, request])))))"
proof (intro conjI impI)
  assume "azure_credentials env = None"
  then show "fst (generate_restoration_description_with_azure env w prompt building_analysis) =
        Inl (Exn PlainException ''Azure credentials not available'')"
    by (simp add: generate_no_credentials)
next
  assume "azure_credentials env = Some (k, ep) \<and>
    plan_complete env (length (plan_requests w)) (plan_request env ep k prompt building_analysis) = Inl e"
  then show "fst (generate_restoration_description_with_azure env w prompt building_analysis) = Inl e"
    by (simp add: generate_remote)
next
  assume c: "azure_credentials env = Some (k, ep)"
  let ?run = "restore_building_image env w image_data (Dict d) address lat lon"
  from restore_Dict_description [OF c, of w image_data d address lat lon]
  obtain r w2 w3 where
    run: "fst ?run = Inr (Result r)" and
    desc: "r_restoration_description r =
       (case plan_complete env (length (plan_requests w))
               (plan_request env ep k (r_prompt r) (r_azure_analysis r)) of
          Inl e \<Rightarrow> templated_plan (dict_get d ''style'' (OStr ''Modern renovation''))
        | Inr description \<Rightarrow> description)" and
    e: "edit_stage env w2 image_data (r_restoration_description r) =
       (r_restored_image r, r_restoration_success r, w3)" and
    tr: "edit_trace w2 = edit_trace w" and
    w': "snd ?run = w3\<lparr>restoration_results := (restoration_results w3)(r_id r \<mapsto> r)\<rparr>"
    by blast
  have stored: "restoration_results (snd ?run) (r_id r) = Some r"
    using w' by simp
  have w3: "w3 = snd (create_restoration_mockup env w2 image_data (r_restoration_description r))"
    using e by (auto simp: edit_stage_eq split: sum.splits)
  have er: "edit_requests w2 = edit_requests w"
    using tr by (simp add: edit_requests_def)
  have sent: "edit_requests (snd ?run) = edit_requests w3"
    using w' by (simp add: edit_requests_def)
  have absorbed: "r_restoration_description r =
              ''Restoration plan for '' @ opt_format (dict_get d ''style'' (OStr ''Modern renovation'')) @
              '' style renovation based on the analysis.''"
    if "isl (plan_complete env (length (plan_requests w))
                 (plan_request env ep k (r_prompt r) (r_azure_analysis r)))"
    using that desc by (auto simp: isl_def templated_plan_def)
  have edited: "let request = edit_request_of env ep k (r_restoration_description r) image_bytes;
                    sent = edit_requests (snd ?run)
                in sent = edit_requests w @ [request] \<or> sent = edit_requests w @ [request, request]"
    if dec: "b64decode env image_data = Inr image_bytes" for image_bytes
    using mockup_requests [OF c dec, of w2 "r_restoration_description r"] w3 sent er
    by (simp add: Let_def split: if_splits)
  show "\<exists>r. fst ?run = Inr (Result r) \<and>
         restoration_results (snd ?run) (r_id r) = Some r \<and>
         (isl (plan_complete env (length (plan_requests w))
                 (plan_request env ep k (r_prompt r) (r_azure_analysis r))) \<longrightarrow>
            r_restoration_description r =
              ''Restoration plan for '' @ opt_format (dict_get d ''style'' (OStr ''Modern renovation'')) @
              '' style renovation based on the analysis.'' \<and>
            (\<forall>image_bytes. b64decode env image_data = Inr image_bytes \<longrightarrow>
               (let request = edit_request_of env ep k (r_restoration_description r) image_bytes;
                    sent = edit_requests (snd ?run)
                in sent = edit_requests w @ [request] \<or> sent = edit_requests w @ [request, request])))"
  proof (intro exI [of _ r] conjI impI allI)
    show "fst ?run = Inr (Result r)" by (rule run)
    show "restoration_results (snd ?run) (r_id r) = Some r" by (rule stored)
  next
    assume "isl (plan_complete env (length (plan_requests w))
                 (plan_request env ep k (r_prompt r) (r_azure_analysis r)))"
    then show "r_restoration_description r =
              ''Restoration plan for '' @ opt_format (dict_get d ''style'' (OStr ''Modern renovation'')) @
              '' style renovation based on the analysis.''"
      by (rule absorbed)
  next
    fix image_bytes
    assume "b64decode env image_data = Inr image_bytes"
    then show "let request = edit_request_of env ep k (r_restoration_description r) image_bytes;
                    sent = edit_requests (snd ?run)
                in sent = edit_requests w @ [request] \<or> sent = edit_requests w @ [request, request]"
      by (rule edited)
  qed
qed
theorem plan_failure_is_absorbed_witness:
  "fst (generate_restoration_description_with_azure
          (sample_env Map.empty (service_answers ''A brick warehouse.'') service_down edit_restores)
          initial_world ''prompt'' ''analysis'') =
     Inl (Exn PlainException ''Azure credentials not available'') \<and>
   fst (generate_restoration_description_with_azure
          (sample_env credentials_set (service_answers ''A brick warehouse.'') service_down edit_restores)
          initial_world ''prompt'' ''analysis'') =
     Inl (Exn PlainException ''connection refused'') \<and>
   (\<exists>r. fst (restore_building_image
               (sample_env credentials_set (service_answers ''A brick warehouse.'') service_down edit_restores)
               initial_world ''aGk='' (Dict Map.empty) None None None) = Inr (Result r) \<and>
        restoration_results (snd (restore_building_image
               (sample_env credentials_set (service_answers ''A brick warehouse.'') service_down edit_restores)
               initial_world ''aGk='' (Dict Map.empty) None None None)) (r_id r) = Some r \<and>
        r_restoration_description r =
          ''Restoration plan for Modern renovation style renovation based on the analysis.'')"
proof (intro conjI)
  let ?off = "sample_env Map.empty (service_answers ''A brick warehouse.'') service_down edit_restores"
  show "fst (generate_restoration_description_with_azure ?off initial_world ''prompt'' ''analysis'') =
     Inl (Exn PlainException ''Azure credentials not available'')"
    using plan_failure_is_absorbed [of ?off initial_world "''prompt''" "''analysis''"]
    by (simp add: sample_no_credentials)
next
  let ?on = "sample_env credentials_set (service_answers ''A brick warehouse.'') service_down edit_restores"
  have "plan_complete ?on (length (plan_requests initial_world))
      (plan_request ?on ''https://example.openai.azure.com'' ''secret'' ''prompt'' ''analysis'') =
      Inl (Exn PlainException ''connection refused'')"
    by (simp add: service_down_def)
  then show "fst (generate_restoration_description_with_azure ?on initial_world ''prompt'' ''analysis'') =
     Inl (Exn PlainException ''connection refused'')"
    using plan_failure_is_absorbed [of ?on initial_world "''prompt''" "''analysis''" "''secret''"
        "''https://example.openai.azure.com''" "Exn PlainException ''connection refused''"]
    by (simp add: sample_credentials)
next
  let ?on = "sample_env credentials_set (service_answers ''A brick warehouse.'') service_down edit_restores"
  let ?run = "restore_building_image ?on initial_world ''aGk='' (Dict Map.empty) None None None"
  have c: "azure_credentials ?on = Some (''secret'', ''https://example.openai.azure.com'')"
    by (rule sample_credentials)
  have down: "isl (plan_complete ?on n q)" for n q
    by (simp add: service_down_def)
  have style: "''Restoration plan for '' @ opt_format (dict_get Map.empty ''style'' (OStr ''Modern renovation'')) @
      '' style renovation based on the analysis.'' =
      ''Restoration plan for Modern renovation style renovation based on the analysis.''"
    by (simp add: dict_get_def)
  from plan_failure_is_absorbed [of ?on initial_world "''prompt''" "''analysis''" "''secret''"
        "''https://example.openai.azure.com''" "Exn PlainException ''connection refused''"
        "''aGk=''" Map.empty None None None] c
  obtain r where run: "fst ?run = Inr (Result r)"
    and stored: "restoration_results (snd ?run) (r_id r) = Some r"
    and absorbed: "isl (plan_complete ?on (length (plan_requests initial_world))
        (plan_request ?on ''https://example.openai.azure.com'' ''secret'' (r_prompt r) (r_azure_analysis r))) \<longrightarrow>
      r_restoration_description r =
        ''Restoration plan for '' @ opt_format (dict_get Map.empty ''style'' (OStr ''Modern renovation'')) @
        '' style renovation based on the analysis.''"
    by blast
  from absorbed down style have "r_restoration_description r =
      ''Restoration plan for Modern renovation style renovation based on the analysis.''"
    by simp
  with run stored show "\<exists>r. fst ?run = Inr (Result r) \<and>
        restoration_results (snd ?run) (r_id r) = Some r \<and>
        r_restoration_description r =
          ''Restoration plan for Modern renovation style renovation based on the analysis.''"
    by blast
qed

text \<open>
  Claim C10.  With credentials and a dict of options a record is returned and stored.
  When the dict has no key \<^verbatim>\<open>"style"\<close>, the style instruction of the prompt is
  "Use a Modern renovation style for the restoration." and, when the call of the plan
  service raises, the description is the templated plan for "Modern renovation".  A
  style that is given is used as it is: no text is rejected, whether or not it is one
  of \<open>RESTORATION_STYLES\<close>.
\<close>

theorem style_defaults_to_modern_renovation:
  "azure_credentials env = Some (k, ep) \<longrightarrow>
     (\<exists>r. fst (restore_building_image env w image_data (Dict d) address lat lon) = Inr (Result r) \<and>
        restoration_results (snd (restore_building_image env w image_data (Dict d) address lat lon))
          (r_id r) = Some r \<and>
        (d ''style'' = None \<longrightarrow>
           r_prompt r =
             RESTORATION_PROMPT ''Use a Modern renovation style for the restoration.''
               (join '' '' (additional_instructions_of d (r_azure_analysis r))) \<and>
           (isl (plan_complete env (length (plan_requests w))
                   (plan_request env ep k (r_prompt r) (r_azure_analysis r))) \<longrightarrow>
              r_restoration_description r =
                ''Restoration plan for Modern renovation style renovation based on the analysis.'')) \<and>
        (\<forall>s. d ''style'' = Some (OStr s) \<longrightarrow>
           r_prompt r =
             RESTORATION_PROMPT (''Use a '' @ s @ '' style for the restoration.'')
               (join '' '' (additional_instructions_of d (r_azure_analysis r)))))"
proof
  assume c: "azure_credentials env = Some (k, ep)"
  let ?run = "restore_building_image env w image_data (Dict d) address lat lon"
  let ?style = "dict_get d ''style'' (OStr ''Modern renovation'')"
  from restore_Dict_description [OF c, of w image_data d address lat lon]
  obtain r where
    run: "fst ?run = Inr (Result r)" and
    desc: "r_restoration_description r =
       (case plan_complete env (length (plan_requests w))
               (plan_request env ep k (r_prompt r) (r_azure_analysis r)) of
          Inl e \<Rightarrow> templated_plan ?style
        | Inr description \<Rightarrow> description)"
    by blast
  from restore_Dict_fields [OF c, of w image_data d address lat lon]
  obtain r' where
    run': "fst ?run = Inr (Result r')" and
    prompt': "r_prompt r' = RESTORATION_PROMPT
            (''Use a '' @ opt_format ?style @ '' style for the restoration.'')
            (join '' '' (additional_instructions_of d (r_azure_analysis r')))" and
    stored': "restoration_results (snd ?run) (r_id r') = Some r'"
    by blast
  from run run' have same: "r' = r" by simp
  note prompt = prompt' [unfolded same] and stored = stored' [unfolded same]
  show "\<exists>r. fst ?run = Inr (Result r) \<and>
        restoration_results (snd ?run) (r_id r) = Some r \<and>
        (d ''style'' = None \<longrightarrow>
           r_prompt r =
             RESTORATION_PROMPT ''Use a Modern renovation style for the restoration.''
               (join '' '' (additional_instructions_of d (r_azure_analysis r))) \<and>
           (isl (plan_complete env (length (plan_requests w))
                   (plan_request env ep k (r_prompt r) (r_azure_analysis r))) \<longrightarrow>
              r_restoration_description r =
                ''Restoration plan for Modern renovation style renovation based on the analysis.'')) \<and>
        (\<forall>s. d ''style'' = Some (OStr s) \<longrightarrow>
           r_prompt r =
             RESTORATION_PROMPT (''Use a '' @ s @ '' style for the restoration.'')
               (join '' '' (additional_instructions_of d (r_azure_analysis r))))"
  proof (intro exI [of _ r] conjI impI allI)
    show "fst ?run = Inr (Result r)" by (rule run)
    show "restoration_results (snd ?run) (r_id r) = Some r" by (rule stored)
  next
    assume "d ''style'' = None"
    then have "opt_format ?style = ''Modern renovation''"
      by (simp add: dict_get_def)
    with prompt show "r_prompt r =
             RESTORATION_PROMPT ''Use a Modern renovation style for the restoration.''
               (join '' '' (additional_instructions_of d (r_azure_analysis r)))"
      by simp
  next
    assume "d ''style'' = None"
      and "isl (plan_complete env (length (plan_requests w))
                   (plan_request env ep k (r_prompt r) (r_azure_analysis r)))"
    with desc show "r_restoration_description r =
                ''Restoration plan for Modern renovation style renovation based on the analysis.''"
      by (auto simp: isl_def templated_plan_def dict_get_def)
  next
    fix s
    assume "d ''style'' = Some (OStr s)"
    then have "opt_format ?style = s"
      by (simp add: dict_get_def)
    with prompt show "r_prompt r =
             RESTORATION_PROMPT (''Use a '' @ s @ '' style for the restoration.'')
               (join '' '' (additional_instructions_of d (r_azure_analysis r)))"
      by simp
  qed
qed

theorem style_defaults_to_modern_renovation_witness:
  "(\<exists>r. fst (restore_building_image
               (sample_env credentials_set (service_answers ''A brick warehouse.'') service_down edit_restores)
               initial_world ''aGk='' (Dict Map.empty) None None None) = Inr (Result r) \<and>
        r_prompt r =
          RESTORATION_PROMPT ''Use a Modern renovation style for the restoration.''
            (join '' '' (additional_instructions_of Map.empty (r_azure_analysis r))) \<and>
        r_restoration_description r =
          ''Restoration plan for Modern renovation style renovation based on the analysis.'') \<and>
   ''Brutalist'' \<notin> set RESTORATION_STYLES \<and>
   (\<exists>r. fst (restore_building_image
               (sample_env credentials_set (service_answers ''A brick warehouse.'') service_down edit_restores)
               initial_world ''aGk='' (Dict (Map.empty(''style'' \<mapsto> OStr ''Brutalist''))) None None None)
           = Inr (Result r) \<and>
        r_prompt r =
          RESTORATION_PROMPT ''Use a Brutalist style for the restoration.''
            (join '' '' (additional_instructions_of (Map.empty(''style'' \<mapsto> OStr ''Brutalist''))
               (r_azure_analysis r))))"
proof (intro conjI)
  let ?on = "sample_env credentials_set (service_answers ''A brick warehouse.'') service_down edit_restores"
  let ?run = "restore_building_image ?on initial_world ''aGk='' (Dict Map.empty) None None None"
  have c: "azure_credentials ?on = Some (''secret'', ''https://example.openai.azure.com'')"
    by (rule sample_credentials)
  have down: "isl (plan_complete ?on n q)" for n q
    by (simp add: service_down_def)
  from style_defaults_to_modern_renovation
      [of ?on "''secret''" "''https://example.openai.azure.com''" initial_world "''aGk=''"
        Map.empty None None None] c
  obtain r where run: "fst ?run = Inr (Result r)"
    and dflt: "Map.empty ''style'' = (None :: optval option) \<longrightarrow>
           r_prompt r =
             RESTORATION_PROMPT ''Use a Modern renovation style for the restoration.''
               (join '' '' (additional_instructions_of Map.empty (r_azure_analysis r))) \<and>
           (isl (plan_complete ?on (length (plan_requests initial_world))
                   (plan_request ?on ''https://example.openai.azure.com'' ''secret'' (r_prompt r) (r_azure_analysis r))) \<longrightarrow>
              r_restoration_description r =
                ''Restoration plan for Modern renovation style renovation based on the analysis.'')"
    by blast
  from dflt down have "r_prompt r =
          RESTORATION_PROMPT ''Use a Modern renovation style for the restoration.''
            (join '' '' (additional_instructions_of Map.empty (r_azure_analysis r)))"
    and "r_restoration_description r =
          ''Restoration plan for Modern renovation style renovation based on the analysis.''"
    by simp_all
  with run show "\<exists>r. fst ?run = Inr (Result r) \<and>
        r_prompt r =
          RESTORATION_PROMPT ''Use a Modern renovation style for the restoration.''
            (join '' '' (additional_instructions_of Map.empty (r_azure_analysis r))) \<and>
        r_restoration_description r =
          ''Restoration plan for Modern renovation style renovation based on the analysis.''"
    by blast
next
  show "''Brutalist'' \<notin> set RESTORATION_STYLES"
    by (simp add: RESTORATION_STYLES_def)
next
  let ?on = "sample_env credentials_set (service_answers ''A brick warehouse.'') service_down edit_restores"
  let ?d = "Map.empty(''style'' \<mapsto> OStr ''Brutalist'')"
  let ?run = "restore_building_image ?on initial_world ''aGk='' (Dict ?d) None None None"
  have c: "azure_credentials ?on = Some (''secret'', ''https://example.openai.azure.com'')"
    by (rule sample_credentials)
  have given: "?d ''style'' = Some (OStr ''Brutalist'')"
    by simp
  from style_defaults_to_modern_renovation
      [of ?on "''secret''" "''https://example.openai.azure.com''" initial_world "''aGk=''"
        ?d None None None] c
  obtain r where run: "fst ?run = Inr (Result r)"
    and any: "\<forall>s. ?d ''style'' = Some (OStr s) \<longrightarrow>
           r_prompt r =
             RESTORATION_PROMPT (''Use a '' @ s @ '' style for the restoration.'')
               (join '' '' (additional_instructions_of ?d (r_azure_analysis r)))"
    by blast
  from any given have "r_prompt r =
          RESTORATION_PROMPT (''Use a '' @ ''Brutalist'' @ '' style for the restoration.'')
            (join '' '' (additional_instructions_of ?d (r_azure_analysis r)))"
    by blast
  then have "r_prompt r =
          RESTORATION_PROMPT ''Use a Brutalist style for the restoration.''
            (join '' '' (additional_instructions_of ?d (r_azure_analysis r)))"
    by simp
  with run show "\<exists>r. fst ?run = Inr (Result r) \<and>
        r_prompt r =
          RESTORATION_PROMPT ''Use a Brutalist style for the restoration.''
            (join '' '' (additional_instructions_of ?d (r_azure_analysis r)))"
    by blast
qed

subsection \<open>Fallback of the image edit\<close>

lemma mockup_fallback:
  assumes c: "azure_credentials env = Some (api_key, endpoint)"
    and dec: "b64decode env original_image_data = Inr image_bytes"
    and first: "failed_response (requests_post env (length (edit_requests w))
        (edit_request_of env endpoint api_key description image_bytes))"
    and second: "first_attempt_blocked env w (edit_request_of env endpoint api_key description image_bytes) \<longrightarrow>
        failed_response (requests_post env (Suc (length (edit_requests w)))
          (edit_request_of env endpoint api_key description image_bytes))"
  shows "fst (create_restoration_mockup env w original_image_data description) =
    Inr (JStr original_image_data)"
proof -
  define request where "request = edit_request_of env endpoint api_key description image_bytes"
  define w1 where "w1 = w\<lparr>edit_trace := edit_trace w @ [Posted request]\<rparr>"
  define w1s where "w1s = w1\<lparr>edit_trace := edit_trace w1 @ [Slept 2]\<rparr>"
  obtain result1 where "fst (post_once env w request) = Inr (False, result1)"
    using post_once_failed [of env w request] first by (auto simp: request_def)
  then have p1: "post_once env w request = (Inr (False, result1), w1)"
    using post_once_world [of env w request]
    by (cases "post_once env w request") (simp add: w1_def)
  show ?thesis
  proof (cases "err_code_of env result1 = JStr ''moderation_blocked''")
    case False
    with c dec p1 show ?thesis
      by (simp add: create_restoration_mockup_def Let_def request_def [symmetric])
  next
    case True
    with p1 have "first_attempt_blocked env w request"
      by (simp add: first_attempt_blocked_def)
    with second have "failed_response (requests_post env (length (edit_requests w1s)) request)"
      by (simp add: request_def w1_def w1s_def posted_append edit_requests_def)
    then obtain result2 where "fst (post_once env w1s request) = Inr (False, result2)"
      using post_once_failed by blast
    then obtain w2 where p2: "post_once env w1s request = (Inr (False, result2), w2)"
      by (cases "post_once env w1s request") simp
    from c dec p1 True p2 show ?thesis
      by (simp add: create_restoration_mockup_def Let_def request_def [symmetric] w1s_def)
  qed
qed

lemma edit_stage_raises_or_original:
  assumes "isl (fst (create_restoration_mockup env w image_data description)) \<or>
     fst (create_restoration_mockup env w image_data description) = Inr (JStr image_data)"
  shows "edit_stage env w image_data description =
     (JStr image_data, False, snd (create_restoration_mockup env w image_data description))"
  using assms by (auto simp: edit_stage_eq isl_def)

lemma edit_stage_all_failed:
  assumes "\<forall>n q. failed_response (requests_post env n q)"
  shows "edit_stage env w image_data description =
     (JStr image_data, False, snd (create_restoration_mockup env w image_data description))"
proof (rule edit_stage_raises_or_original)
  show "isl (fst (create_restoration_mockup env w image_data description)) \<or>
     fst (create_restoration_mockup env w image_data description) = Inr (JStr image_data)"
  proof (cases "azure_credentials env")
    case None
    then show ?thesis by (simp add: mockup_no_credentials)
  next
    case (Some c)
    obtain k ep where "c = (k, ep)" by (cases c)
    with Some have cr: "azure_credentials env = Some (k, ep)" by simp
    show ?thesis
    proof (cases "b64decode env image_data")
      case (Inl e)
      with cr show ?thesis by (simp add: mockup_decode_raises)
    next
      case (Inr image_bytes)
      from assms have "fst (create_restoration_mockup env w image_data description) = Inr (JStr image_data)"
        by (intro mockup_fallback [OF cr Inr]) simp_all
      then show ?thesis by simp
    qed
  qed
qed

text \<open>
  The failures on which the image edit does fall back.  \<^verbatim>\<open>create_restoration_mockup\<close>
  returns the original image, unchanged, when the credentials are missing, and when the
  first attempt fails (the request raises, the status is not 200, or the payload has no
  data) and either no retry is due or the retry fails too.  When the function raises,
  the handler around its call in \<^verbatim>\<open>restore_building_image\<close> keeps the original image
  and sets the flag to false, as it does when the function returns the original image.
  So a run in which every edit request fails returns a record whose restored image is
  the original image and whose success flag is false.
\<close>

lemma mockup_falls_back_to_original:
  "(azure_credentials env = None \<longrightarrow>
      create_restoration_mockup env w image_data description = (Inr (JStr image_data), w)) \<and>
   (azure_credentials env = Some (api_key, endpoint) \<and>
    b64decode env image_data = Inr image_bytes \<and>
    failed_response (requests_post env (length (edit_requests w))
      (edit_request_of env endpoint api_key description image_bytes)) \<and>
    (first_attempt_blocked env w (edit_request_of env endpoint api_key description image_bytes) \<longrightarrow>
       failed_response (requests_post env (Suc (length (edit_requests w)))
         (edit_request_of env endpoint api_key description image_bytes))) \<longrightarrow>
      fst (create_restoration_mockup env w image_data description) = Inr (JStr image_data)) \<and>
   (isl (fst (create_restoration_mockup env w image_data description)) \<or>
    fst (create_restoration_mockup env w image_data description) = Inr (JStr image_data) \<longrightarrow>
      edit_stage env w image_data description =
        (JStr image_data, False, snd (create_restoration_mockup env w image_data description))) \<and>
   (azure_credentials env \<noteq> None \<and> (\<forall>n q. failed_response (requests_post env n q)) \<longrightarrow>
      (\<exists>r. fst (restore_building_image env w image_data (Dict d) address lat lon) = Inr (Result r) \<and>
         r_original_image r = image_data \<and> r_restored_image r = JStr image_data \<and>
         \<not> r_restoration_success r))"
proof (intro conjI impI)
  assume "azure_credentials env = None"
  then show "create_restoration_mockup env w image_data description = (Inr (JStr image_data), w)"
    by (rule mockup_no_credentials)
next
  assume "azure_credentials env = Some (api_key, endpoint) \<and>
    b64decode env image_data = Inr image_bytes \<and>
    failed_response (requests_post env (length (edit_requests w))
      (edit_request_of env endpoint api_key description image_bytes)) \<and>
    (first_attempt_blocked env w (edit_request_of env endpoint api_key description image_bytes) \<longrightarrow>
       failed_response (requests_post env (Suc (length (edit_requests w)))
         (edit_request_of env endpoint api_key description image_bytes)))"
  then show "fst (create_restoration_mockup env w image_data description) = Inr (JStr image_data)"
    using mockup_fallback [of env api_key endpoint image_data image_bytes w description] by blast
next
  assume "isl (fst (create_restoration_mockup env w image_data description)) \<or>
    fst (create_restoration_mockup env w image_data description) = Inr (JStr image_data)"
  then show "edit_stage env w image_data description =
        (JStr image_data, False, snd (create_restoration_mockup env w image_data description))"
    by (rule edit_stage_raises_or_original)
next
  assume h: "azure_credentials env \<noteq> None \<and> (\<forall>n q. failed_response (requests_post env n q))"
  then obtain c where "azure_credentials env = Some c" by blast
  then obtain k ep where c: "azure_credentials env = Some (k, ep)" by (cases c) simp
  let ?run = "restore_building_image env w image_data (Dict d) address lat lon"
  from restore_Dict_description [OF c, of w image_data d address lat lon]
  obtain r w2 w3 where
    run: "fst ?run = Inr (Result r)" and
    e: "edit_stage env w2 image_data (r_restoration_description r) =
       (r_restored_image r, r_restoration_success r, w3)"
    by blast
  from restore_Dict_fields [OF c, of w image_data d address lat lon] run
  have orig: "r_original_image r = image_data" by auto
  from h have "edit_stage env w2 image_data (r_restoration_description r) =
     (JStr image_data, False,
      snd (create_restoration_mockup env w2 image_data (r_restoration_description r)))"
    by (intro edit_stage_all_failed) simp
  with e have "r_restored_image r = JStr image_data" "\<not> r_restoration_success r"
    by simp_all
  with run orig show "\<exists>r. fst ?run = Inr (Result r) \<and>
         r_original_image r = image_data \<and> r_restored_image r = JStr image_data \<and>
         \<not> r_restoration_success r"
    by blast
qed

text \<open>
  Claim C3.  The claim, like the docstring of \<^verbatim>\<open>create_restoration_mockup\<close> ("Any
  other failure ... falls back to the original image data"), says that the function
  returns the original image on every failure and never raises.  The code does not: with
  the credentials set and the image \<^verbatim>\<open>aGk=\<close>, when the edit service answers with
  status 200 and the body \<^verbatim>\<open>{"data": [{"url": "https://example.com/restored.png"}]}\<close>,
  the access \<^verbatim>\<open>payload["data"][0]["b64_json"]\<close> in \<^verbatim>\<open>_post_once\<close> is outside every
  handler of the function, and the function raises \<^verbatim>\<open>KeyError\<close> instead of returning
  the original image.
\<close>

theorem mockup_raises_on_missing_b64_json:
  "fst (create_restoration_mockup
          (sample_env credentials_set service_down service_down edit_returns_url)
          initial_world ''aGk='' ''plan'') = Inl (Exn KeyError (quoted ''b64_json'')) \<and>
   fst (create_restoration_mockup
          (sample_env credentials_set service_down service_down edit_returns_url)
          initial_world ''aGk='' ''plan'') \<noteq> Inr (JStr ''aGk='')"
  by (simp add: create_restoration_mockup_def post_once_def sample_credentials edit_returns_url_def
      payload_result_def url_payload_def Let_def)

lemma sample_unavailable_failed: "failed_response (edit_unavailable n q)"
  by (simp add: failed_response_def edit_unavailable_def)

lemma mockup_falls_back_to_original_example:
  "create_restoration_mockup
     (sample_env Map.empty service_down service_down edit_unavailable)
     initial_world ''aGk='' ''plan'' = (Inr (JStr ''aGk=''), initial_world) \<and>
   fst (create_restoration_mockup
     (sample_env credentials_set service_down service_down edit_unavailable)
     initial_world ''aGk='' ''plan'') = Inr (JStr ''aGk='') \<and>
   edit_stage (sample_env credentials_set service_down service_down edit_returns_url)
     initial_world ''aGk='' ''plan'' =
     (JStr ''aGk='', False,
      snd (create_restoration_mockup
        (sample_env credentials_set service_down service_down edit_returns_url)
        initial_world ''aGk='' ''plan'')) \<and>
   (\<exists>r. fst (restore_building_image
             (sample_env credentials_set service_down service_down edit_unavailable)
             initial_world ''aGk='' (Dict Map.empty) None None None) = Inr (Result r) \<and>
        r_original_image r = ''aGk='' \<and> r_restored_image r = JStr ''aGk='' \<and>
        \<not> r_restoration_success r)"
proof (intro conjI)
  let ?off = "sample_env Map.empty service_down service_down edit_unavailable"
  show "create_restoration_mockup ?off initial_world ''aGk='' ''plan'' = (Inr (JStr ''aGk=''), initial_world)"
    using mockup_falls_back_to_original [of ?off initial_world "''aGk=''" "''plan''"]
    by (simp add: sample_no_credentials)
next
  let ?on = "sample_env credentials_set service_down service_down edit_unavailable"
  have c: "azure_credentials ?on = Some (''secret'', ''https://example.openai.azure.com'')"
    by (rule sample_credentials)
  have dec: "b64decode ?on ''aGk='' = Inr ''hi''"
    by simp
  have failed: "failed_response (requests_post ?on n q)" for n q
    by (simp add: sample_unavailable_failed)
  show "fst (create_restoration_mockup ?on initial_world ''aGk='' ''plan'') = Inr (JStr ''aGk='')"
    using mockup_falls_back_to_original [of ?on initial_world "''aGk=''" "''plan''" "''secret''"
        "''https://example.openai.azure.com''" "''hi''"] c dec failed
    by blast
next
  let ?url = "sample_env credentials_set service_down service_down edit_returns_url"
  have "isl (fst (create_restoration_mockup ?url initial_world ''aGk='' ''plan''))"
    by (simp add: create_restoration_mockup_def post_once_def sample_credentials edit_returns_url_def
        payload_result_def url_payload_def Let_def)
  then show "edit_stage ?url initial_world ''aGk='' ''plan'' =
     (JStr ''aGk='', False, snd (create_restoration_mockup ?url initial_world ''aGk='' ''plan''))"
    using mockup_falls_back_to_original [of ?url initial_world "''aGk=''" "''plan''"]
    by blast
next
  let ?on = "sample_env credentials_set service_down service_down edit_unavailable"
  have c: "azure_credentials ?on \<noteq> None"
    by (simp add: sample_credentials)
  have failed: "\<forall>n q. failed_response (requests_post ?on n q)"
    by (simp add: sample_unavailable_failed)
  show "\<exists>r. fst (restore_building_image ?on initial_world ''aGk='' (Dict Map.empty) None None None)
          = Inr (Result r) \<and>
        r_original_image r = ''aGk='' \<and> r_restored_image r = JStr ''aGk='' \<and>
        \<not> r_restoration_success r"
    using mockup_falls_back_to_original [of ?on initial_world "''aGk=''" "''plan''" "''secret''"
        "''https://example.openai.azure.com''" "''hi''" Map.empty None None None] c failed
    by blast
qed

end
